theory Spec2Isabelle
  imports Complex_Main
begin

section \<open>Python values\<close>

text \<open>
  A Python \<open>str\<close> is a sequence of Unicode code points; it is modelled as a list of
  code points (natural numbers), so that \<open>str.strip\<close>, \<open>str.split\<close> and equality of
  the category labels mean what they mean in Python. \<open>ascii\<close> embeds an ASCII literal.
  A Python \<open>float\<close> is modelled as an exact real number: IEEE rounding, infinities
  and NaN are outside the model.
\<close>

type_synonym pystr = "nat list"

definition ascii :: "string \<Rightarrow> pystr" where
  "ascii s = map of_char s"

datatype py_error = ValueError | IndexError | ZeroDivisionError | EOFError

text \<open>A \<open>dict\<close> keeps its keys in insertion order: an association list.\<close>

type_synonym 'v dict = "(pystr \<times> 'v) list"

fun dict_get :: "'v dict \<Rightarrow> pystr \<Rightarrow> 'v option" where
  "dict_get [] k = None"
| "dict_get ((k', v) # d) k = (if k' = k then Some v else dict_get d k)"

text \<open>\<open>d[k] = v\<close>: an existing key keeps its place, a new key goes last.\<close>

fun dict_set :: "'v dict \<Rightarrow> pystr \<Rightarrow> 'v \<Rightarrow> 'v dict" where
  "dict_set [] k v = [(k, v)]"
| "dict_set ((k', v') # d) k v = (if k' = k then (k, v) # d else (k', v') # dict_set d k v)"

definition dict_keys :: "'v dict \<Rightarrow> pystr list" where
  "dict_keys d = map fst d"

definition dict_values :: "'v dict \<Rightarrow> 'v list" where
  "dict_values d = map snd d"

text \<open>\<open>d.get(k, default)\<close>\<close>

definition dict_get_default :: "'v dict \<Rightarrow> pystr \<Rightarrow> 'v \<Rightarrow> 'v" where
  "dict_get_default d k dflt = (case dict_get d k of None \<Rightarrow> dflt | Some v \<Rightarrow> v)"

text \<open>Float division raises on a zero divisor.\<close>

definition py_truediv :: "real \<Rightarrow> real \<Rightarrow> py_error + real" where
  "py_truediv a b = (if b = 0 then Inl ZeroDivisionError else Inr (a / b))"

section \<open>Constants for categorisation and budgeting\<close>

definition FOOD :: pystr where "FOOD = 0x1F354 # ascii '' Food''"
definition HOME :: pystr where "HOME = 0x1F3E0 # ascii '' Home''"
definition WORK :: pystr where "WORK = 0x1F4BC # ascii '' Work''"
definition FUN :: pystr where "FUN = 0x1F389 # ascii '' Fun''"
definition MISC :: pystr where "MISC = 0x2728 # ascii '' Misc''"

definition CORE_CATEGORIES :: "pystr list" where
  "CORE_CATEGORIES = [FOOD, HOME, WORK, FUN, MISC]"

definition SAVINGS_CATEGORY :: pystr where
  "SAVINGS_CATEGORY = 0x1F4B0 # ascii '' Savings''"

definition SAVINGS_USE_CATEGORY :: pystr where
  "SAVINGS_USE_CATEGORY = 0x274C # ascii '' Savings_Use''"

section \<open>Budget setup: \<open>get_total_money_and_calculate_budgets\<close>\<close>

text \<open>
  The two validation loops read the user's lines one by one; the lines still to come
  are a list, and running out of them is Python's \<open>EOFError\<close>. \<open>pyfloat\<close> is the
  builtin \<open>float\<close> on strings (\<open>None\<close> is its \<open>ValueError\<close>).
\<close>

fun read_total_money :: "(pystr \<Rightarrow> real option) \<Rightarrow> pystr list \<Rightarrow> py_error + (real \<times> pystr list)" where
  "read_total_money pyfloat [] = Inl EOFError"
| "read_total_money pyfloat (s # inputs) =
     (case pyfloat s of
        None \<Rightarrow> read_total_money pyfloat inputs
      | Some total_money \<Rightarrow>
          if total_money > 0 then Inr (total_money, inputs)
          else read_total_money pyfloat inputs)"

fun read_savings_goal :: "(pystr \<Rightarrow> real option) \<Rightarrow> real \<Rightarrow> pystr list \<Rightarrow> py_error + (real \<times> pystr list)" where
  "read_savings_goal pyfloat total_money [] = Inl EOFError"
| "read_savings_goal pyfloat total_money (s # inputs) =
     (case pyfloat s of
        None \<Rightarrow> read_savings_goal pyfloat total_money inputs
      | Some savings_goal \<Rightarrow>
          if savings_goal \<ge> 0 \<and> savings_goal \<le> total_money then Inr (savings_goal, inputs)
          else read_savings_goal pyfloat total_money inputs)"

text \<open>
  The part after the prompts (the division and the building of the dictionary).
  The divisor is \<open>len(CORE_CATEGORIES)\<close>, the constant 5.
\<close>

definition calculate_budgets :: "real \<Rightarrow> real \<Rightarrow> real dict" where
  "calculate_budgets total_money savings_goal =
     (let remaining_for_spending = total_money - savings_goal;
          num_spending_categories = length CORE_CATEGORIES;
          spending_budget_per_cat =
            (if remaining_for_spending < 0 then 0
             else remaining_for_spending / real num_spending_categories)
      in foldl (\<lambda>category_budgets cat. dict_set category_budgets cat spending_budget_per_cat)
           [(SAVINGS_CATEGORY, savings_goal)] CORE_CATEGORIES)"

definition get_total_money_and_calculate_budgets ::
    "(pystr \<Rightarrow> real option) \<Rightarrow> pystr list \<Rightarrow> py_error + (real dict \<times> pystr list)" where
  "get_total_money_and_calculate_budgets pyfloat inputs =
     (case read_total_money pyfloat inputs of
        Inl e \<Rightarrow> Inl e
      | Inr (total_money, inputs') \<Rightarrow>
          (case read_savings_goal pyfloat total_money inputs' of
             Inl e \<Rightarrow> Inl e
           | Inr (savings_goal, inputs'') \<Rightarrow>
               Inr (calculate_budgets total_money savings_goal, inputs'')))"

section \<open>String operations of the record store\<close>

text \<open>
  The characters \<open>str.strip()\<close> removes: those for which \<open>str.isspace\<close> holds, as
  CPython's \<open>_PyUnicode_IsWhitespace\<close> lists them.
\<close>

definition is_space :: "nat \<Rightarrow> bool" where
  "is_space c \<longleftrightarrow>
     (9 \<le> c \<and> c \<le> 13) \<or> (28 \<le> c \<and> c \<le> 32) \<or> c = 133 \<or> c = 160 \<or> c = 5760 \<or>
     (8192 \<le> c \<and> c \<le> 8202) \<or> c = 8232 \<or> c = 8233 \<or> c = 8239 \<or> c = 8287 \<or> c = 12288"

definition strip :: "pystr \<Rightarrow> pystr" where
  "strip s = rev (dropWhile is_space (rev (dropWhile is_space s)))"

text \<open>\<open>s.split(sep)\<close> for a one-character separator: always at least one part.\<close>

fun py_split :: "nat \<Rightarrow> pystr \<Rightarrow> pystr list" where
  "py_split sep [] = [[]]"
| "py_split sep (c # cs) =
     (if c = sep then [] # py_split sep cs
      else (case py_split sep cs of [] \<Rightarrow> [[c]] | p # ps \<Rightarrow> (c # p) # ps))"

text \<open>
  Reading in text mode translates a carriage return followed by a line feed, and a
  lone carriage return (code point 13), to a line feed (code point 10);
  \<open>readlines\<close> then cuts after every line feed and keeps it.
\<close>

fun universal_newlines :: "pystr \<Rightarrow> pystr" where
  "universal_newlines [] = []"
| "universal_newlines [c] = [if c = 13 then 10 else c]"
| "universal_newlines (c # c' # cs) =
     (if c = 13 \<and> c' = 10 then 10 # universal_newlines cs
      else if c = 13 then 10 # universal_newlines (c' # cs)
      else c # universal_newlines (c' # cs))"

fun readlines :: "pystr \<Rightarrow> pystr list" where
  "readlines [] = []"
| "readlines (c # cs) =
     (if c = 10 then [10] # readlines cs
      else (case readlines cs of [] \<Rightarrow> [[c]] | l # ls \<Rightarrow> (c # l) # ls))"

section \<open>Dates and times\<close>

record datetime =
  year :: nat
  month :: nat
  day :: nat
  hour :: nat
  minute :: nat
  second :: nat

text \<open>
  \<open>datetime.datetime.now()\<close> is read from a clock: the \<open>t\<close>-th reading of a run is
  \<open>clk t\<close>, and every function that reads the clock returns the number of readings made.
\<close>

type_synonym clock = "nat \<Rightarrow> datetime"

definition zero_pad2 :: "nat \<Rightarrow> pystr" where
  "zero_pad2 n = [48 + n div 10 mod 10, 48 + n mod 10]"

definition zero_pad4 :: "nat \<Rightarrow> pystr" where
  "zero_pad4 n = [48 + n div 1000 mod 10, 48 + n div 100 mod 10, 48 + n div 10 mod 10, 48 + n mod 10]"

text \<open>\<open>d.strftime("%Y-%m-%d %H:%M:%S")\<close>, for a year of four digits.\<close>

definition strftime :: "datetime \<Rightarrow> pystr" where
  "strftime d =
     zero_pad4 (year d) @ [45] @ zero_pad2 (month d) @ [45] @ zero_pad2 (day d) @ [32] @
     zero_pad2 (hour d) @ [58] @ zero_pad2 (minute d) @ [58] @ zero_pad2 (second d)"

text \<open>\<open>calendar.isleap\<close> and the day count \<open>calendar.monthrange(year, month)[1]\<close>.\<close>

definition isleap :: "nat \<Rightarrow> bool" where
  "isleap y \<longleftrightarrow> y mod 4 = 0 \<and> (y mod 100 \<noteq> 0 \<or> y mod 400 = 0)"

definition mdays :: "nat list" where
  "mdays = [0, 31, 28, 31, 30, 31, 30, 31, 31, 30, 31, 30, 31]"

definition monthrange :: "nat \<Rightarrow> nat \<Rightarrow> py_error + nat" where
  "monthrange y m =
     (if \<not> (1 \<le> m \<and> m \<le> 12) then Inl ValueError
      else Inr (mdays ! m + (if m = 2 \<and> isleap y then 1 else 0)))"

text \<open>
  \<open>calendar.month_name[i]\<close> indexes a list of 13 entries: it raises \<open>IndexError\<close>
  outside \<open>-13 .. 12\<close>. Only whether it raises matters here.
\<close>

definition month_name :: "int \<Rightarrow> py_error + unit" where
  "month_name i = (if -13 \<le> i \<and> i \<le> 12 then Inr () else Inl IndexError)"

section \<open>The expense record\<close>

record expense =
  name :: pystr
  category :: pystr
  amount :: real
  timestamp :: pystr

text \<open>
  \<open>Expense.__init__\<close>: a timestamp that is \<open>None\<close> or empty is replaced by the
  formatted current time, which reads the clock once.
\<close>

definition Expense :: "clock \<Rightarrow> nat \<Rightarrow> pystr \<Rightarrow> pystr \<Rightarrow> real \<Rightarrow> pystr option \<Rightarrow> expense \<times> nat" where
  "Expense clk t nm cat amt ts =
     (case ts of
        Some s \<Rightarrow>
          (if s \<noteq> [] then (\<lparr>name = nm, category = cat, amount = amt, timestamp = s\<rparr>, t)
           else (\<lparr>name = nm, category = cat, amount = amt, timestamp = strftime (clk t)\<rparr>, Suc t))
      | None \<Rightarrow> (\<lparr>name = nm, category = cat, amount = amt, timestamp = strftime (clk t)\<rparr>, Suc t))"

text \<open>
  The first loop of \<open>get_user_expense\<close>: a name is accepted when it is not empty
  after stripping, and it is kept as typed.
\<close>

fun read_expense_name :: "pystr list \<Rightarrow> py_error + (pystr \<times> pystr list)" where
  "read_expense_name [] = Inl EOFError"
| "read_expense_name (expense_name # inputs) =
     (if strip expense_name \<noteq> [] then Inr (expense_name, inputs)
      else read_expense_name inputs)"

section \<open>What the program prints\<close>

datatype message =
    WarnMalformedAmount pystr
  | WarnTooFewFields pystr
  | InfoFileNotFound
  | NoExpensesToDelete
  | DeletionCancelled
  | Deleted pystr
  | InvalidNumber
  | InvalidInput

section \<open>Record store: \<open>load_expenses\<close>, \<open>save_all_expenses\<close>, \<open>delete_expense\<close>\<close>

text \<open>
  The store is the text of the file, \<open>None\<close> when the file does not exist. The body
  of the loop over the lines is \<open>load_line\<close>; its state is the list of expenses so
  far, the warnings printed so far and the number of clock readings.
\<close>

fun load_line :: "(pystr \<Rightarrow> real option) \<Rightarrow> clock \<Rightarrow>
    expense list \<times> message list \<times> nat \<Rightarrow> pystr \<Rightarrow> expense list \<times> message list \<times> nat" where
  "load_line pyfloat clk (expenses, out, t) raw =
     (let line = strip raw in
      if line = [] then (expenses, out, t)
      else
        (let parts = py_split 44 line in
         if length parts \<ge> 3 then
           (let expense_name = parts ! 0;
                expense_amount_str = parts ! 1;
                expense_category = parts ! 2;
                ts = (if length parts \<ge> 4 then Some (parts ! 3) else None)
            in case pyfloat expense_amount_str of
                 None \<Rightarrow> (expenses, out @ [WarnMalformedAmount line], t)
               | Some a \<Rightarrow>
                   (case Expense clk t expense_name expense_category a ts of
                      (line_expense, t') \<Rightarrow> (expenses @ [line_expense], out, t')))
         else (expenses, out @ [WarnTooFewFields line], t)))"

definition load_expenses :: "(pystr \<Rightarrow> real option) \<Rightarrow> clock \<Rightarrow> nat \<Rightarrow> pystr option \<Rightarrow>
    expense list \<times> message list \<times> nat" where
  "load_expenses pyfloat clk t file =
     (case file of
        None \<Rightarrow> ([], [InfoFileNotFound], t)
      | Some content \<Rightarrow>
          foldl (load_line pyfloat clk) ([], [], t) (readlines (universal_newlines content)))"

text \<open>
  The format specification \<open>.2f\<close>: the value rounded to hundredths, ties to even, with
  a minus sign for a negative value, at least one digit before the point and two after.
\<close>

definition round_half_even :: "real \<Rightarrow> int" where
  "round_half_even x =
     (let f = \<lfloor>x\<rfloor>; d = x - of_int f
      in if d < 1 / 2 then f else if d > 1 / 2 then f + 1 else if even f then f else f + 1)"

function dec_digits :: "nat \<Rightarrow> pystr" where
  "dec_digits n = (if n < 10 then [48 + n] else dec_digits (n div 10) @ [48 + n mod 10])"
  by pat_completeness auto
termination
  by (relation "measure id") auto

declare dec_digits.simps [simp del]

definition hundredths :: "real \<Rightarrow> nat" where
  "hundredths x = nat (round_half_even (\<bar>x\<bar> * 100))"

definition format_2f :: "real \<Rightarrow> pystr" where
  "format_2f x =
     (if x < 0 then [45] else []) @ dec_digits (hundredths x div 100) @ [46] @
     zero_pad2 (hundredths x mod 100)"

text \<open>The number that the text \<open>format_2f x\<close> denotes: \<open>x\<close> rounded to 2 decimals.\<close>

definition round_2dp :: "real \<Rightarrow> real" where
  "round_2dp x = (if x < 0 then - 1 else 1) * real (hundredths x) / 100"

definition expense_line :: "expense \<Rightarrow> pystr" where
  "expense_line e =
     name e @ [44] @ format_2f (amount e) @ [44] @ category e @ [44] @ timestamp e @ [10]"

text \<open>Mode \<open>w\<close> replaces the whole text, one line per expense.\<close>

definition save_all_expenses :: "expense list \<Rightarrow> pystr option" where
  "save_all_expenses expenses = Some (concat (map expense_line expenses))"

text \<open>Mode \<open>a\<close> adds one line at the end, creating the file when it is missing.\<close>

definition save_new_expense :: "expense \<Rightarrow> pystr option \<Rightarrow> pystr option" where
  "save_new_expense e file =
     Some ((case file of None \<Rightarrow> [] | Some content \<Rightarrow> content) @ expense_line e)"

text \<open>
  \<open>selection.lower() == 'c'\<close>: the only strings whose lower case is \<open>c\<close> are
  \<open>c\<close> and \<open>C\<close>.
\<close>

definition lower_is_c :: "pystr \<Rightarrow> bool" where
  "lower_is_c selection \<longleftrightarrow> selection = [99] \<or> selection = [67]"

text \<open>
  The prompt loop of \<open>delete_expense\<close>. \<open>pyint\<close> is the builtin \<open>int\<close> on strings.
  The result is the list to write back (\<open>None\<close> after a cancel), what was printed,
  and the lines of input not yet read.
\<close>

fun delete_loop :: "(pystr \<Rightarrow> int option) \<Rightarrow> expense list \<Rightarrow> pystr list \<Rightarrow> message list \<Rightarrow>
    py_error + (expense list option \<times> message list \<times> pystr list)" where
  "delete_loop pyint all_expenses [] out = Inl EOFError"
| "delete_loop pyint all_expenses (selection # inputs) out =
     (if lower_is_c selection then Inr (None, out @ [DeletionCancelled], inputs)
      else
        (case pyint selection of
           None \<Rightarrow> delete_loop pyint all_expenses inputs (out @ [InvalidInput])
         | Some v \<Rightarrow>
             (let index_to_delete = v - 1 in
              if 0 \<le> index_to_delete \<and> index_to_delete < int (length all_expenses) then
                (let deleted_expense = all_expenses ! nat index_to_delete;
                     remaining_expenses =
                       take (nat index_to_delete) all_expenses @
                       drop (Suc (nat index_to_delete)) all_expenses
                 in Inr (Some remaining_expenses, out @ [Deleted (name deleted_expense)], inputs))
              else delete_loop pyint all_expenses inputs (out @ [InvalidNumber]))))"

text \<open>The result of \<open>delete_expense\<close>: the store afterwards, and the rest of the state.\<close>

record delete_result =
  store :: "pystr option"
  printed :: "message list"
  ticks :: nat
  unread :: "pystr list"

definition delete_expense :: "(pystr \<Rightarrow> real option) \<Rightarrow> (pystr \<Rightarrow> int option) \<Rightarrow> clock \<Rightarrow> nat \<Rightarrow>
    pystr option \<Rightarrow> pystr list \<Rightarrow> py_error + delete_result" where
  "delete_expense pyfloat pyint clk t file inputs =
     (case load_expenses pyfloat clk t file of
        (all_expenses, out, t') \<Rightarrow>
          if all_expenses = [] then
            Inr \<lparr>store = file, printed = out @ [NoExpensesToDelete], ticks = t', unread = inputs\<rparr>
          else
            (case delete_loop pyint all_expenses inputs out of
               Inl e \<Rightarrow> Inl e
             | Inr (None, out', inputs') \<Rightarrow>
                 Inr \<lparr>store = file, printed = out', ticks = t', unread = inputs'\<rparr>
             | Inr (Some remaining_expenses, out', inputs') \<Rightarrow>
                 Inr \<lparr>store = save_all_expenses remaining_expenses, printed = out',
                      ticks = t', unread = inputs'\<rparr>))"

section \<open>Summary: \<open>summarize_expenses\<close>\<close>

text \<open>
  The filtering loop. \<open>strptime\<close> is \<open>datetime.datetime.strptime\<close> with the format
  \<open>%Y-%m-%d %H:%M:%S\<close>; \<open>None\<close> is any exception it raises, which the bare
  \<open>except\<close> of the loop turns into skipping the record.
\<close>

fun filter_expenses :: "(pystr \<Rightarrow> datetime option) \<Rightarrow> int option \<Rightarrow> int option \<Rightarrow>
    expense list \<Rightarrow> expense list" where
  "filter_expenses strptime filter_month filter_year [] = []"
| "filter_expenses strptime filter_month filter_year (e # all_expenses) =
     (case strptime (timestamp e) of
        None \<Rightarrow> filter_expenses strptime filter_month filter_year all_expenses
      | Some expense_date \<Rightarrow>
          (let month_match = (filter_month = None \<or> Some (int (month expense_date)) = filter_month);
               year_match = (filter_year = None \<or> Some (int (year expense_date)) = filter_year)
           in if month_match \<and> year_match
              then e # filter_expenses strptime filter_month filter_year all_expenses
              else filter_expenses strptime filter_month filter_year all_expenses))"

text \<open>Truth value of an optional integer: \<open>None\<close> and \<open>0\<close> are false.\<close>

definition truthy :: "int option \<Rightarrow> bool" where
  "truthy x \<longleftrightarrow> (case x of None \<Rightarrow> False | Some i \<Rightarrow> i \<noteq> 0)"

text \<open>
  The period label is printed when both filters are true values; looking up the name of
  the month can raise.
\<close>

definition period_label :: "int option \<Rightarrow> int option \<Rightarrow> py_error + unit" where
  "period_label filter_month filter_year =
     (if truthy filter_month \<and> truthy filter_year
      then month_name (case filter_month of None \<Rightarrow> 0 | Some m \<Rightarrow> m) else Inr ())"

text \<open>
  The aggregation loop over the filtered expenses: the spending per category and the
  total taken out of savings.
\<close>

fun aggregate :: "expense list \<Rightarrow> real dict \<times> real \<Rightarrow> real dict \<times> real" where
  "aggregate [] acc = acc"
| "aggregate (expense # filtered_expenses) (spending_by_category, total_savings_used) =
     (case dict_get spending_by_category (category expense) of
        Some v \<Rightarrow>
          aggregate filtered_expenses
            (dict_set spending_by_category (category expense) (v + amount expense),
             total_savings_used)
      | None \<Rightarrow>
          if category expense = SAVINGS_USE_CATEGORY
          then aggregate filtered_expenses
                 (spending_by_category, total_savings_used + amount expense)
          else aggregate filtered_expenses (spending_by_category, total_savings_used))"

text \<open>\<open>int(x)\<close> of a float truncates towards zero.\<close>

definition py_int :: "real \<Rightarrow> int" where
  "py_int x = (if x \<ge> 0 then \<lfloor>x\<rfloor> else \<lceil>x\<rceil>)"

definition BAR_LENGTH :: int where
  "BAR_LENGTH = 30"

text \<open>
  The bar of a row: green with some filled cells followed by dashes, or red and full.
  A string repeated a negative number of times is empty.
\<close>

datatype bar = Green nat nat | Red nat

fun bar_filled :: "bar \<Rightarrow> nat" where
  "bar_filled (Green filled dashes) = filled"
| "bar_filled (Red filled) = filled"

record report_row =
  row_category :: pystr
  spent_amount :: real
  budget_amount :: real
  remaining :: real
  percentage_used :: real
  filled_length :: int
  row_bar :: bar

definition report_row :: "real dict \<Rightarrow> pystr \<times> real \<Rightarrow> py_error + report_row" where
  "report_row spending_by_category item =
     (let cat = fst item; budget = snd item;
          spent = dict_get_default spending_by_category cat 0;
          rem = budget - spent
      in case (if budget > 0 then py_truediv spent budget else Inr 0) of
           Inl e \<Rightarrow> Inl e
         | Inr pct \<Rightarrow>
             (let filled = py_int (real_of_int BAR_LENGTH * min pct 1)
              in Inr \<lparr>row_category = cat, spent_amount = spent, budget_amount = budget,
                      remaining = rem, percentage_used = pct, filled_length = filled,
                      row_bar = (if rem \<ge> 0 then Green (nat filled) (nat (BAR_LENGTH - filled))
                                 else Red (nat BAR_LENGTH))\<rparr>))"

fun report_rows :: "real dict \<Rightarrow> real dict \<Rightarrow> py_error + report_row list" where
  "report_rows spending_by_category [] = Inr []"
| "report_rows spending_by_category (item # items) =
     (case report_row spending_by_category item of
        Inl e \<Rightarrow> Inl e
      | Inr r \<Rightarrow>
          (case report_rows spending_by_category items of
             Inl e \<Rightarrow> Inl e
           | Inr rs \<Rightarrow> Inr (r # rs)))"

text \<open>The daily spending limit: the days left in the month and the budget per day.\<close>

definition days_in_month :: "datetime \<Rightarrow> int" where
  "days_in_month now = (case monthrange (year now) (month now) of Inl e \<Rightarrow> 30 | Inr n \<Rightarrow> int n)"

definition daily_limit :: "datetime \<Rightarrow> real \<Rightarrow> py_error + (int \<times> real)" where
  "daily_limit now remaining_spending_budget =
     (let remaining_days = days_in_month now - int (day now) + 1
      in if remaining_days > 0 then
           (case py_truediv remaining_spending_budget (real_of_int remaining_days) of
              Inl e \<Rightarrow> Inl e
            | Inr daily_budget \<Rightarrow> Inr (remaining_days, daily_budget))
         else Inr (remaining_days, remaining_spending_budget))"

text \<open>Everything the summary prints, as one record.\<close>

record summary =
  rows :: "report_row list"
  total_budget :: real
  total_spent :: real
  total_savings_used :: real
  initial_savings_goal :: real
  adjusted_savings_goal :: real
  remaining_spending_budget :: real
  daily :: "(int \<times> real) option"

datatype outcome = NoExpensesForPeriod | Report summary

text \<open>
  The summary of the expenses already loaded: \<open>now\<close> is the clock reading taken after
  the aggregation. The period label is looked up, when both filters are true values,
  before the test for an empty period.
\<close>

definition summarize_records :: "(pystr \<Rightarrow> datetime option) \<Rightarrow> datetime \<Rightarrow> expense list \<Rightarrow>
    real dict \<Rightarrow> int option \<Rightarrow> int option \<Rightarrow> py_error + outcome" where
  "summarize_records strptime now all_expenses category_budgets filter_month filter_year =
     (let filtered_expenses = filter_expenses strptime filter_month filter_year all_expenses
      in case period_label filter_month filter_year of
           Inl e \<Rightarrow> Inl e
         | Inr u \<Rightarrow>
             if filtered_expenses = [] then Inr NoExpensesForPeriod
             else
               (case aggregate filtered_expenses
                       (foldl (\<lambda>d cat. dict_set d cat 0) [] (dict_keys category_budgets), 0) of
                  (spending_by_category, savings_used) \<Rightarrow>
                    (let budget_total = sum_list (dict_values category_budgets);
                         spent_total = sum_list (dict_values spending_by_category);
                         is_current_month = (filter_month = Some (int (month now)) \<and>
                                             filter_year = Some (int (year now)))
                     in case report_rows spending_by_category category_budgets of
                          Inl e \<Rightarrow> Inl e
                        | Inr rs \<Rightarrow>
                            (let savings_goal = dict_get_default category_budgets SAVINGS_CATEGORY 0;
                                 adjusted = savings_goal - savings_used;
                                 total_spending_budget = budget_total - savings_goal;
                                 spending_left = total_spending_budget - spent_total
                             in case (if is_current_month
                                      then map_sum id Some (daily_limit now spending_left)
                                      else Inr None) of
                                  Inl e \<Rightarrow> Inl e
                                | Inr dl \<Rightarrow>
                                    Inr (Report \<lparr>rows = rs, total_budget = budget_total,
                                           total_spent = spent_total,
                                           total_savings_used = savings_used,
                                           initial_savings_goal = savings_goal,
                                           adjusted_savings_goal = adjusted,
                                           remaining_spending_budget = spending_left,
                                           daily = dl\<rparr>)))))"

text \<open>
  The whole of \<open>summarize_expenses\<close>: load the store (reading the clock for every
  record without a timestamp), then summarise with the next clock reading as \<open>now\<close>.
\<close>

definition summarize_expenses :: "(pystr \<Rightarrow> real option) \<Rightarrow> (pystr \<Rightarrow> datetime option) \<Rightarrow> clock \<Rightarrow>
    nat \<Rightarrow> pystr option \<Rightarrow> real dict \<Rightarrow> int option \<Rightarrow> int option \<Rightarrow> py_error + outcome" where
  "summarize_expenses pyfloat strptime clk t file category_budgets filter_month filter_year =
     (case load_expenses pyfloat clk t file of
        (all_expenses, out, t') \<Rightarrow>
          summarize_records strptime (clk t') all_expenses category_budgets
            filter_month filter_year)"




section \<open>Library functions on plain ASCII input\<close>

text \<open>
  The functions above take \<open>float\<close>, \<open>int\<close> and \<open>strptime\<close> as parameters, so the
  general results hold whatever these library functions accept. The definitions of this
  section describe them on ASCII digits, where they are used at concrete inputs and
  for the timestamps that \<open>strftime\<close> produces.
\<close>

definition is_digit :: "nat \<Rightarrow> bool" where
  "is_digit c \<longleftrightarrow> 48 \<le> c \<and> c \<le> 57"

definition in_range :: "nat \<Rightarrow> nat \<Rightarrow> nat \<Rightarrow> bool" where
  "in_range lo hi c \<longleftrightarrow> lo \<le> c \<and> c \<le> hi"

text \<open>The number written by a string of decimal digits.\<close>

definition digits_value :: "pystr \<Rightarrow> nat" where
  "digits_value ds = foldl (\<lambda>acc c. 10 * acc + (c - 48)) 0 ds"

text \<open>
  \<open>strptime\<close> compiles the format \<open>%Y-%m-%d %H:%M:%S\<close> to the regular expression
  \<open>(\d\d\d\d)-(1[0-2]|0[1-9]|[1-9])-(3[0-1]|[1-2]\d|0[1-9]|[1-9]| [1-9])\s+\<close>
  \<open>(2[0-3]|[0-1]\d|\d):([0-5]\d|\d):(6[0-1]|[0-5]\d|\d)\<close>. Each piece below returns
  the ways it can match a prefix of the text, in the order a backtracking matcher tries
  them, each with the value read and the text left over.
\<close>

definition two_chars :: "(nat \<Rightarrow> bool) \<Rightarrow> (nat \<Rightarrow> bool) \<Rightarrow> pystr \<Rightarrow> (nat \<times> pystr) list" where
  "two_chars P Q s =
     (case s of
        a # b # rest \<Rightarrow> if P a \<and> Q b then [(digits_value [a, b], rest)] else []
      | _ \<Rightarrow> [])"

definition one_char :: "(nat \<Rightarrow> bool) \<Rightarrow> pystr \<Rightarrow> (nat \<times> pystr) list" where
  "one_char P s = (case s of a # rest \<Rightarrow> if P a then [(digits_value [a], rest)] else [] | [] \<Rightarrow> [])"

definition re_lit :: "nat \<Rightarrow> pystr \<Rightarrow> pystr list" where
  "re_lit ch s = (case s of a # rest \<Rightarrow> if a = ch then [rest] else [] | [] \<Rightarrow> [])"

fun re_spaces :: "pystr \<Rightarrow> pystr list" where
  "re_spaces [] = []"
| "re_spaces (c # cs) = (if is_space c then re_spaces cs @ [cs] else [])"

definition re_Y :: "pystr \<Rightarrow> (nat \<times> pystr) list" where
  "re_Y s =
     (case s of
        a # b # c # d # rest \<Rightarrow>
          if is_digit a \<and> is_digit b \<and> is_digit c \<and> is_digit d
          then [(digits_value [a, b, c, d], rest)] else []
      | _ \<Rightarrow> [])"

definition re_m :: "pystr \<Rightarrow> (nat \<times> pystr) list" where
  "re_m s = two_chars (in_range 49 49) (in_range 48 50) s @
            two_chars (in_range 48 48) (in_range 49 57) s @
            one_char (in_range 49 57) s"

definition re_d :: "pystr \<Rightarrow> (nat \<times> pystr) list" where
  "re_d s = two_chars (in_range 51 51) (in_range 48 49) s @
            two_chars (in_range 49 50) is_digit s @
            two_chars (in_range 48 48) (in_range 49 57) s @
            one_char (in_range 49 57) s @
            (case s of
               a # b # rest \<Rightarrow> if a = 32 \<and> in_range 49 57 b then [(digits_value [b], rest)] else []
             | _ \<Rightarrow> [])"

definition re_H :: "pystr \<Rightarrow> (nat \<times> pystr) list" where
  "re_H s = two_chars (in_range 50 50) (in_range 48 51) s @
            two_chars (in_range 48 49) is_digit s @
            one_char is_digit s"

definition re_M :: "pystr \<Rightarrow> (nat \<times> pystr) list" where
  "re_M s = two_chars (in_range 48 53) is_digit s @ one_char is_digit s"

definition re_S :: "pystr \<Rightarrow> (nat \<times> pystr) list" where
  "re_S s = two_chars (in_range 54 54) (in_range 48 49) s @
            two_chars (in_range 48 53) is_digit s @
            one_char is_digit s"

text \<open>All matches of the whole expression, the preferred one first.\<close>

definition strptime_matches :: "pystr \<Rightarrow> (datetime \<times> pystr) list" where
  "strptime_matches s =
     List.bind (re_Y s) (\<lambda>(Y, s1).
     List.bind (re_lit 45 s1) (\<lambda>s2.
     List.bind (re_m s2) (\<lambda>(m, s3).
     List.bind (re_lit 45 s3) (\<lambda>s4.
     List.bind (re_d s4) (\<lambda>(d, s5).
     List.bind (re_spaces s5) (\<lambda>s6.
     List.bind (re_H s6) (\<lambda>(H, s7).
     List.bind (re_lit 58 s7) (\<lambda>s8.
     List.bind (re_M s8) (\<lambda>(M, s9).
     List.bind (re_lit 58 s9) (\<lambda>s10.
     List.bind (re_S s10) (\<lambda>(S, s11).
       [(\<lparr>year = Y, month = m, day = d, hour = H, minute = M, second = S\<rparr>, s11)])))))))))))"

text \<open>
  \<open>strptime\<close> takes the first match; text left over after it, or field values that
  are not a date and time (year 0, a day beyond the month's last, second 60 or 61),
  raise \<open>ValueError\<close>.
\<close>

definition py_strptime :: "pystr \<Rightarrow> datetime option" where
  "py_strptime s =
     (case strptime_matches s of
        [] \<Rightarrow> None
      | (dt, rest) # others \<Rightarrow>
          if rest \<noteq> [] then None
          else if year dt < 1 then None
          else (case monthrange (year dt) (month dt) of
                  Inl e \<Rightarrow> None
                | Inr n \<Rightarrow> if day dt \<le> n \<and> second dt \<le> 59 then Some dt else None))"

text \<open>
  \<open>float\<close> and \<open>int\<close> on plain decimal numerals: surrounding whitespace, an optional
  sign, digits and, for \<open>float\<close>, an optional point with digits on at least one side.
  The builtins accept further forms (exponents, underscores, \<open>inf\<close>, \<open>nan\<close>, digits
  outside ASCII), which these definitions reject.
\<close>

definition split_sign :: "pystr \<Rightarrow> bool \<times> pystr" where
  "split_sign s =
     (case s of
        [] \<Rightarrow> (False, [])
      | c # rest \<Rightarrow> if c = 45 then (True, rest) else if c = 43 then (False, rest) else (False, s))"

definition pyint_plain :: "pystr \<Rightarrow> int option" where
  "pyint_plain s =
     (case split_sign (strip s) of
        (neg, body) \<Rightarrow>
          if body \<noteq> [] \<and> list_all is_digit body
          then Some ((if neg then - 1 else 1) * int (digits_value body))
          else None)"

definition pyfloat_plain :: "pystr \<Rightarrow> real option" where
  "pyfloat_plain s =
     (case split_sign (strip s) of
        (neg, body) \<Rightarrow>
          (let ip = takeWhile is_digit body;
               after = dropWhile is_digit body;
               fp = (case after of [] \<Rightarrow> [] | c # rest \<Rightarrow> if c = 46 then rest else [c])
           in if (after = [] \<or> hd after = 46) \<and> list_all is_digit fp \<and> (ip \<noteq> [] \<or> fp \<noteq> [])
              then Some ((if neg then - 1 else 1) *
                         (real (digits_value ip) + real (digits_value fp) / 10 ^ length fp))
              else None))"

section \<open>Conditions on records and dates\<close>

text \<open>
  A record whose line in the store reads back as the same record: no field holds a
  comma, a line feed or a carriage return, the name does not begin with whitespace, and
  the timestamp is not empty and does not end with whitespace. (A timestamp made by
  \<open>Expense.__init__\<close> is never empty.)
\<close>

definition storable :: "expense \<Rightarrow> bool" where
  "storable e \<longleftrightarrow>
     (\<forall>c \<in> set (name e) \<union> set (category e) \<union> set (timestamp e). c \<noteq> 44 \<and> c \<noteq> 10 \<and> c \<noteq> 13) \<and>
     (name e = [] \<or> \<not> is_space (hd (name e))) \<and>
     timestamp e \<noteq> [] \<and> \<not> is_space (last (timestamp e))"

text \<open>
  A date and time as the clock gives it, with a year of four digits: the fields are in
  the ranges of \<open>datetime.datetime\<close> and the day exists in the month.
\<close>

definition valid_datetime :: "datetime \<Rightarrow> bool" where
  "valid_datetime d \<longleftrightarrow>
     1000 \<le> year d \<and> year d \<le> 9999 \<and> 1 \<le> month d \<and> month d \<le> 12 \<and> 1 \<le> day d \<and>
     (case monthrange (year d) (month d) of Inl e \<Rightarrow> False | Inr n \<Rightarrow> day d \<le> n) \<and>
     hour d \<le> 23 \<and> minute d \<le> 59 \<and> second d \<le> 59"

section \<open>Example data\<close>

text \<open>
  Records, budgets and clock readings used to run the functions at concrete inputs:
  the lunch and the rent of the specification's first scenario, a withdrawal from
  savings, an amount recorded under the savings category itself, a record with an
  unknown category and one whose timestamp is not a date.
\<close>

definition lunch :: expense where
  "lunch = \<lparr>name = ascii ''Lunch'', category = FOOD, amount = 150,
            timestamp = ascii ''2024-03-05 12:00:00''\<rparr>"

definition rent :: expense where
  "rent = \<lparr>name = ascii ''Rent'', category = HOME, amount = 500,
           timestamp = ascii ''2024-03-01 09:00:00''\<rparr>"

definition withdrawal :: expense where
  "withdrawal = \<lparr>name = ascii ''Used for: repair'', category = SAVINGS_USE_CATEGORY,
                 amount = 300, timestamp = ascii ''2024-03-10 08:30:00''\<rparr>"

definition deposit :: expense where
  "deposit = \<lparr>name = ascii ''Deposit'', category = SAVINGS_CATEGORY, amount = 300,
              timestamp = ascii ''2024-03-05 12:00:00''\<rparr>"

definition gift :: expense where
  "gift = \<lparr>name = ascii ''Gift'', category = ascii ''Legacy'', amount = 20,
           timestamp = ascii ''2024-03-07 10:00:00''\<rparr>"

definition undated :: expense where
  "undated = \<lparr>name = ascii ''Old'', category = HOME, amount = 20,
              timestamp = ascii ''yesterday''\<rparr>"

definition april_rent :: expense where
  "april_rent = \<lparr>name = ascii ''Rent'', category = HOME, amount = 500,
                 timestamp = ascii ''2024-04-01 09:00:00''\<rparr>"

definition scenario_budgets :: "real dict" where
  "scenario_budgets = [(FOOD, 200), (HOME, 500), (SAVINGS_CATEGORY, 1000)]"

definition small_budgets :: "real dict" where
  "small_budgets = [(FOOD, 0), (HOME, 500), (SAVINGS_CATEGORY, 100)]"

definition end_of_march :: datetime where
  "end_of_march = \<lparr>year = 2024, month = 3, day = 31, hour = 23, minute = 59, second = 59\<rparr>"

definition mid_march :: datetime where
  "mid_march = \<lparr>year = 2024, month = 3, day = 22, hour = 10, minute = 0, second = 0\<rparr>"

definition padded_lunch :: expense where
  "padded_lunch = lunch\<lparr>name := ascii '' Lunch''\<rparr>"

definition frozen_clock :: clock where
  "frozen_clock t = end_of_march"

section \<open>Properties\<close>

lemmas category_defs = FOOD_def HOME_def WORK_def FUN_def MISC_def SAVINGS_CATEGORY_def
  SAVINGS_USE_CATEGORY_def ascii_def

subsection \<open>Budget allocation\<close>





text \<open>
  The prompts hand over exactly such values: whenever the two loops return, the income
  is above 0 and the savings goal lies between 0 and the income.
\<close>

lemma read_total_money_positive:
  "read_total_money pyfloat inputs = Inr (total_money, inputs') \<Longrightarrow> 0 < total_money"
  by (induction inputs) (auto split: option.splits if_splits)

lemma read_savings_goal_bounds:
  "read_savings_goal pyfloat total_money inputs = Inr (savings_goal, inputs') \<Longrightarrow>
     0 \<le> savings_goal \<and> savings_goal \<le> total_money"
  by (induction inputs) (auto split: option.splits if_splits)

lemma get_total_money_and_calculate_budgets_result:
  assumes "get_total_money_and_calculate_budgets pyfloat inputs = Inr (category_budgets, rest)"
  shows "\<exists>total_money savings_goal.
           0 < total_money \<and> 0 \<le> savings_goal \<and> savings_goal \<le> total_money \<and>
           category_budgets = calculate_budgets total_money savings_goal"
  using assms
  by (auto simp add: get_total_money_and_calculate_budgets_def
        split: sum.splits prod.splits
        dest: read_total_money_positive read_savings_goal_bounds)

subsection \<open>Dictionaries and the aggregation loop\<close>

lemma dict_get_dict_set:
  "dict_get (dict_set d k v) k' = (if k' = k then Some v else dict_get d k')"
  by (induction d) auto

lemma sum_values_dict_set:
  "dict_get d k = Some old \<Longrightarrow>
     sum_list (dict_values (dict_set d k v)) = sum_list (dict_values d) - old + (v::real)"
proof (induction d)
  case Nil
  then show ?case by simp
next
  case (Cons p d)
  obtain k' v' where p: "p = (k', v')" by (cases p)
  show ?case
  proof (cases "k' = k")
    case True
    then have "old = v'" using Cons.prems p by simp
    then show ?thesis using True p by (simp add: dict_values_def)
  next
    case False
    then have "dict_get d k = Some old" using Cons.prems p by simp
    then have "sum_list (dict_values (dict_set d k v)) = sum_list (dict_values d) - old + v"
      by (rule Cons.IH)
    then show ?thesis using False p by (simp add: dict_values_def)
  qed
qed

lemma dict_get_zeros:
  "dict_get (foldl (\<lambda>d cat. dict_set d cat (0::real)) d0 ks) k =
     (if k \<in> set ks then Some 0 else dict_get d0 k)"
  by (induction ks arbitrary: d0) (auto simp add: dict_get_dict_set)

lemma values_dict_set_subset:
  "set (dict_values (dict_set d k v)) \<subseteq> insert v (set (dict_values d))"
  by (induction d) (force simp add: dict_values_def split: if_splits)+

lemma values_zeros:
  "set (dict_values d0) \<subseteq> {0} \<Longrightarrow>
     set (dict_values (foldl (\<lambda>d cat. dict_set d cat (0::real)) d0 ks)) \<subseteq> {0}"
proof (induction ks arbitrary: d0)
  case Nil
  then show ?case by simp
next
  case (Cons k ks)
  have "set (dict_values (dict_set d0 k (0::real))) \<subseteq> {0}"
    using values_dict_set_subset [of d0 k 0] Cons.prems by auto
  then show ?case using Cons.IH by simp
qed

lemma sum_list_zeros: "set (xs :: real list) \<subseteq> {0} \<Longrightarrow> sum_list xs = 0"
  by (induction xs) auto

lemma sum_values_zeros:
  "sum_list (dict_values (foldl (\<lambda>d cat. dict_set d cat (0::real)) [] ks)) = 0"
  by (rule sum_list_zeros, rule values_zeros) (simp add: dict_values_def)

lemma aggregate_get:
  "dict_get (fst (aggregate xs (sbc, u))) k =
     map_option (\<lambda>v. v + (\<Sum>e\<leftarrow>filter (\<lambda>e. category e = k) xs. amount e)) (dict_get sbc k)"
proof (induction xs arbitrary: sbc u)
  case Nil
  then show ?case by (simp add: option.map_ident)
next
  case (Cons e xs)
  then show ?case
    by (cases "dict_get sbc k") (auto simp add: dict_get_dict_set split: option.splits)
qed

lemma aggregate_snd:
  "snd (aggregate xs (sbc, u)) =
     u + (\<Sum>e\<leftarrow>filter (\<lambda>e. dict_get sbc (category e) = None \<and>
                             category e = SAVINGS_USE_CATEGORY) xs. amount e)"
proof (induction xs arbitrary: sbc u)
  case Nil
  then show ?case by simp
next
  case (Cons e xs)
  show ?case
  proof (cases "dict_get sbc (category e)")
    case None
    then show ?thesis using Cons.IH [of sbc] by simp
  next
    case (Some v)
    have same: "\<And>k. dict_get (dict_set sbc (category e) (v + amount e)) k = None \<longleftrightarrow>
                   dict_get sbc k = None"
      using Some by (simp add: dict_get_dict_set)
    show ?thesis using Some Cons.IH [of "dict_set sbc (category e) (v + amount e)" u]
      by (simp add: same)
  qed
qed

lemma aggregate_sum:
  "sum_list (dict_values (fst (aggregate xs (sbc, u)))) =
     sum_list (dict_values sbc) +
     (\<Sum>e\<leftarrow>filter (\<lambda>e. dict_get sbc (category e) \<noteq> None) xs. amount e)"
proof (induction xs arbitrary: sbc u)
  case Nil
  then show ?case by simp
next
  case (Cons e xs)
  show ?case
  proof (cases "dict_get sbc (category e)")
    case None
    then show ?thesis using Cons.IH [of sbc] by simp
  next
    case (Some v)
    have same: "\<And>k. (\<exists>y. dict_get (dict_set sbc (category e) (v + amount e)) k = Some y) \<longleftrightarrow>
                   (\<exists>y. dict_get sbc k = Some y)"
      using Some by (simp add: dict_get_dict_set)
    show ?thesis
      using Some Cons.IH [of "dict_set sbc (category e) (v + amount e)" u]
        sum_values_dict_set [OF Some, of "v + amount e"]
      by (simp add: same)
  qed
qed


lemma report_row_total: "\<exists>r. report_row sbc item = Inr r"
  by (simp add: report_row_def Let_def py_truediv_def)

lemma report_rows_eq:
  "report_rows sbc cb = Inr (map (\<lambda>item. projr (report_row sbc item)) cb)"
proof (induction cb)
  case Nil
  then show ?case by simp
next
  case (Cons item cb)
  obtain r where "report_row sbc item = Inr r" using report_row_total by blast
  then show ?case using Cons by simp
qed

lemma daily_limit_eq:
  "daily_limit now b =
     Inr (days_in_month now - int (day now) + 1,
          if days_in_month now - int (day now) + 1 > 0
          then b / real_of_int (days_in_month now - int (day now) + 1) else b)"
  by (simp add: daily_limit_def Let_def py_truediv_def)

lemma report_row_eq:
  "report_row sbc (cat, budget) =
     Inr \<lparr>row_category = cat,
          spent_amount = dict_get_default sbc cat 0,
          budget_amount = budget,
          remaining = budget - dict_get_default sbc cat 0,
          percentage_used = (if budget > 0 then dict_get_default sbc cat 0 / budget else 0),
          filled_length = py_int (real_of_int BAR_LENGTH *
             min (if budget > 0 then dict_get_default sbc cat 0 / budget else 0) 1),
          row_bar = (if budget - dict_get_default sbc cat 0 \<ge> 0
             then Green (nat (py_int (real_of_int BAR_LENGTH *
                    min (if budget > 0 then dict_get_default sbc cat 0 / budget else 0) 1)))
                    (nat (BAR_LENGTH - py_int (real_of_int BAR_LENGTH *
                    min (if budget > 0 then dict_get_default sbc cat 0 / budget else 0) 1)))
             else Red (nat BAR_LENGTH))\<rparr>"
  by (simp add: report_row_def Let_def py_truediv_def)

lemma summarize_records_eq:
  "summarize_records sp now xs cb fm fy =
     (case period_label fm fy of
        Inl e \<Rightarrow> Inl e
      | Inr u \<Rightarrow>
          if filter_expenses sp fm fy xs = [] then Inr NoExpensesForPeriod
          else
            (let agg = aggregate (filter_expenses sp fm fy xs)
                         (foldl (\<lambda>d cat. dict_set d cat 0) [] (dict_keys cb), 0);
                 left = sum_list (dict_values cb) - dict_get_default cb SAVINGS_CATEGORY 0 -
                        sum_list (dict_values (fst agg))
             in Inr (Report \<lparr>rows = map (\<lambda>item. projr (report_row (fst agg) item)) cb,
                      total_budget = sum_list (dict_values cb),
                      total_spent = sum_list (dict_values (fst agg)),
                      total_savings_used = snd agg,
                      initial_savings_goal = dict_get_default cb SAVINGS_CATEGORY 0,
                      adjusted_savings_goal = dict_get_default cb SAVINGS_CATEGORY 0 - snd agg,
                      remaining_spending_budget = left,
                      daily = (if fm = Some (int (month now)) \<and> fy = Some (int (year now))
                               then Some (projr (daily_limit now left)) else None)\<rparr>)))"
  by (simp add: summarize_records_def Let_def report_rows_eq daily_limit_eq
        split: sum.splits prod.splits)

subsection \<open>The summary as a function of its inputs\<close>

lemma period_label_ok:
  "fm = None \<or> (\<exists>m. fm = Some m \<and> 1 \<le> m \<and> m \<le> 12) \<Longrightarrow> period_label fm fy = Inr ()"
  by (auto simp add: period_label_def month_name_def truthy_def)

lemma summarize_records_Report_iff:
  "(\<exists>r. summarize_records sp now xs cb fm fy = Inr (Report r)) \<longleftrightarrow>
     period_label fm fy = Inr () \<and> filter_expenses sp fm fy xs \<noteq> []"
  by (auto simp add: summarize_records_eq Let_def split: sum.splits)

lemma summarize_records_no_zero_division:
  "summarize_records sp now xs cb fm fy \<noteq> Inl ZeroDivisionError"
  by (auto simp add: summarize_records_eq Let_def period_label_def month_name_def split: sum.splits if_splits)

text \<open>
  \<open>summarize_expenses\<close> is \<open>summarize_records\<close> on what \<open>load_expenses\<close> returns, so
  every property of \<open>summarize_records\<close> below, stated for all record lists and all
  current dates, is a property of \<open>summarize_expenses\<close>.
\<close>

lemma summarize_expenses_records:
  "summarize_expenses pyfloat sp clk t file cb fm fy =
     summarize_records sp (clk (snd (snd (load_expenses pyfloat clk t file))))
       (fst (load_expenses pyfloat clk t file)) cb fm fy"
  by (simp add: summarize_expenses_def split: prod.splits)

lemma spent_of_key:
  "k \<in> set (dict_keys cb) \<Longrightarrow>
     dict_get_default
       (fst (aggregate F (foldl (\<lambda>d cat. dict_set d cat 0) [] (dict_keys cb), 0))) k 0 =
     (\<Sum>e\<leftarrow>filter (\<lambda>e. category e = k) F. amount e)"
  by (simp add: dict_get_default_def aggregate_get dict_get_zeros)

lemma total_spent_eq:
  "sum_list (dict_values
     (fst (aggregate F (foldl (\<lambda>d cat. dict_set d cat 0) [] (dict_keys cb), 0)))) =
   (\<Sum>e\<leftarrow>filter (\<lambda>e. category e \<in> set (dict_keys cb)) F. amount e)"
proof -
  have "filter (\<lambda>e. dict_get (foldl (\<lambda>d cat. dict_set d cat (0::real)) [] (dict_keys cb))
                      (category e) \<noteq> None) F =
        filter (\<lambda>e. category e \<in> set (dict_keys cb)) F"
    by (rule filter_cong [OF refl]) (simp add: dict_get_zeros)
  then show ?thesis
    using aggregate_sum [of F "foldl (\<lambda>d cat. dict_set d cat 0) [] (dict_keys cb)" 0]
    by (simp add: sum_values_zeros)
qed

lemma savings_used_eq:
  "snd (aggregate F (foldl (\<lambda>d cat. dict_set d cat 0) [] (dict_keys cb), 0)) =
   (\<Sum>e\<leftarrow>filter (\<lambda>e. category e \<notin> set (dict_keys cb) \<and>
                           category e = SAVINGS_USE_CATEGORY) F. amount e)"
proof -
  have "filter (\<lambda>e. dict_get (foldl (\<lambda>d cat. dict_set d cat (0::real)) [] (dict_keys cb))
                      (category e) = None \<and> category e = SAVINGS_USE_CATEGORY) F =
        filter (\<lambda>e. category e \<notin> set (dict_keys cb) \<and> category e = SAVINGS_USE_CATEGORY) F"
    by (rule filter_cong [OF refl]) (simp add: dict_get_zeros)
  then show ?thesis
    using aggregate_snd [of F "foldl (\<lambda>d cat. dict_set d cat 0) [] (dict_keys cb)" 0]
    by simp
qed

lemma summarize_records_Report:
  assumes "summarize_records sp now xs cb fm fy = Inr (Report r)"
  shows "rows r = map (\<lambda>item. projr (report_row
             (fst (aggregate (filter_expenses sp fm fy xs)
                (foldl (\<lambda>d cat. dict_set d cat 0) [] (dict_keys cb), 0))) item)) cb"
    and "total_budget r = sum_list (dict_values cb)"
    and "total_spent r =
           (\<Sum>e\<leftarrow>filter (\<lambda>e. category e \<in> set (dict_keys cb)) (filter_expenses sp fm fy xs). amount e)"
    and "total_savings_used r =
           (\<Sum>e\<leftarrow>filter (\<lambda>e. category e \<notin> set (dict_keys cb) \<and> category e = SAVINGS_USE_CATEGORY)
                 (filter_expenses sp fm fy xs). amount e)"
    and "initial_savings_goal r = dict_get_default cb SAVINGS_CATEGORY 0"
    and "adjusted_savings_goal r = initial_savings_goal r - total_savings_used r"
    and "remaining_spending_budget r = total_budget r - initial_savings_goal r - total_spent r"
    and "daily r = (if fm = Some (int (month now)) \<and> fy = Some (int (year now))
                    then Some (projr (daily_limit now (remaining_spending_budget r))) else None)"
proof -
  let ?agg = "aggregate (filter_expenses sp fm fy xs)
                (foldl (\<lambda>d cat. dict_set d cat 0) [] (dict_keys cb), 0)"
  let ?left = "sum_list (dict_values cb) - dict_get_default cb SAVINGS_CATEGORY 0 -
               sum_list (dict_values (fst ?agg))"
  have r: "r = \<lparr>rows = map (\<lambda>item. projr (report_row (fst ?agg) item)) cb,
                 total_budget = sum_list (dict_values cb),
                 total_spent = sum_list (dict_values (fst ?agg)),
                 total_savings_used = snd ?agg,
                 initial_savings_goal = dict_get_default cb SAVINGS_CATEGORY 0,
                 adjusted_savings_goal = dict_get_default cb SAVINGS_CATEGORY 0 - snd ?agg,
                 remaining_spending_budget = ?left,
                 daily = (if fm = Some (int (month now)) \<and> fy = Some (int (year now))
                          then Some (projr (daily_limit now ?left)) else None)\<rparr>"
    using assms by (auto simp add: summarize_records_eq Let_def split: sum.splits if_splits)
  show "rows r = map (\<lambda>item. projr (report_row (fst ?agg) item)) cb"
    by (subst r) simp
  show "total_budget r = sum_list (dict_values cb)"
    by (subst r) simp
  show ts: "total_spent r =
      (\<Sum>e\<leftarrow>filter (\<lambda>e. category e \<in> set (dict_keys cb)) (filter_expenses sp fm fy xs). amount e)"
    by (subst r) (simp add: total_spent_eq)
  show "total_savings_used r =
      (\<Sum>e\<leftarrow>filter (\<lambda>e. category e \<notin> set (dict_keys cb) \<and> category e = SAVINGS_USE_CATEGORY)
            (filter_expenses sp fm fy xs). amount e)"
    by (subst r) (simp add: savings_used_eq)
  show "initial_savings_goal r = dict_get_default cb SAVINGS_CATEGORY 0"
    by (subst r) simp
  have f1: "initial_savings_goal r = dict_get_default cb SAVINGS_CATEGORY 0"
    and f2: "total_savings_used r = snd ?agg"
    and f3: "total_budget r = sum_list (dict_values cb)"
    and f4: "total_spent r = sum_list (dict_values (fst ?agg))"
    and f5: "remaining_spending_budget r = ?left"
    by (subst r, simp)+
  have "adjusted_savings_goal r = dict_get_default cb SAVINGS_CATEGORY 0 - snd ?agg"
    by (subst r) simp
  then show "adjusted_savings_goal r = initial_savings_goal r - total_savings_used r"
    by (simp add: f1 f2)
  show "remaining_spending_budget r = total_budget r - initial_savings_goal r - total_spent r"
    by (simp add: f1 f3 f4 f5)
  have "daily r = (if fm = Some (int (month now)) \<and> fy = Some (int (year now))
                   then Some (projr (daily_limit now ?left)) else None)"
    by (subst r) simp
  then show "daily r = (if fm = Some (int (month now)) \<and> fy = Some (int (year now))
                    then Some (projr (daily_limit now (remaining_spending_budget r))) else None)"
    by (simp add: f5)
qed



lemma row_fields:
  fixes sbc :: "real dict"
  defines "pct item \<equiv> (if snd item > 0 then dict_get_default sbc (fst item) 0 / snd item else 0)"
  shows "row_category (projr (report_row sbc item)) = fst item"
    and "budget_amount (projr (report_row sbc item)) = snd item"
    and "spent_amount (projr (report_row sbc item)) = dict_get_default sbc (fst item) 0"
    and "remaining (projr (report_row sbc item)) = snd item - dict_get_default sbc (fst item) 0"
    and "percentage_used (projr (report_row sbc item)) = pct item"
    and "filled_length (projr (report_row sbc item)) =
           py_int (real_of_int BAR_LENGTH * min (pct item) 1)"
    and "row_bar (projr (report_row sbc item)) =
           (if snd item - dict_get_default sbc (fst item) 0 \<ge> 0
            then Green (nat (py_int (real_of_int BAR_LENGTH * min (pct item) 1)))
                   (nat (BAR_LENGTH - py_int (real_of_int BAR_LENGTH * min (pct item) 1)))
            else Red (nat BAR_LENGTH))"
  unfolding pct_def by (cases item; simp add: report_row_eq)+

lemma py_int_le: "x \<le> real_of_int n \<Longrightarrow> 0 \<le> n \<Longrightarrow> py_int x \<le> n"
  by (auto simp add: py_int_def floor_le_iff ceiling_le_iff)

lemma filled_le: "py_int (real_of_int BAR_LENGTH * min p 1) \<le> BAR_LENGTH"
  by (rule py_int_le) (auto simp add: BAR_LENGTH_def min_def)

subsection \<open>Filtering by period\<close>

lemmas strptime_eval = py_strptime_def strptime_matches_def re_Y_def re_m_def re_d_def re_H_def
  re_M_def re_S_def two_chars_def one_char_def re_lit_def in_range_def is_digit_def
  digits_value_def is_space_def List.bind_def monthrange_def mdays_def isleap_def ascii_def

lemma strptime_examples:
  "py_strptime (ascii ''2024-03-05 12:00:00'') =
     Some \<lparr>year = 2024, month = 3, day = 5, hour = 12, minute = 0, second = 0\<rparr>"
  "py_strptime (ascii ''2024-03-01 09:00:00'') =
     Some \<lparr>year = 2024, month = 3, day = 1, hour = 9, minute = 0, second = 0\<rparr>"
  "py_strptime (ascii ''2024-03-10 08:30:00'') =
     Some \<lparr>year = 2024, month = 3, day = 10, hour = 8, minute = 30, second = 0\<rparr>"
  "py_strptime (ascii ''2024-03-07 10:00:00'') =
     Some \<lparr>year = 2024, month = 3, day = 7, hour = 10, minute = 0, second = 0\<rparr>"
  "py_strptime (ascii ''2024-04-01 09:00:00'') =
     Some \<lparr>year = 2024, month = 4, day = 1, hour = 9, minute = 0, second = 0\<rparr>"
  "py_strptime (ascii ''yesterday'') = None"
  by (simp_all add: strptime_eval)

lemmas example_defs = lunch_def rent_def withdrawal_def deposit_def gift_def undated_def
  april_rent_def

lemma filter_examples:
  "filter_expenses py_strptime (Some 3) (Some 2024) [lunch, undated, april_rent] = [lunch]"
  "filter_expenses py_strptime None None [lunch, undated, april_rent] = [lunch, april_rent]"
  "filter_expenses py_strptime (Some 5) (Some 2024) [lunch, undated, april_rent] = []"
  "filter_expenses py_strptime (Some 3) (Some 2024) [lunch, rent] = [lunch, rent]"
  "filter_expenses py_strptime (Some 3) (Some 2024) [lunch, withdrawal, gift] =
     [lunch, withdrawal, gift]"
  "filter_expenses py_strptime (Some 3) (Some 2024) [lunch, deposit] = [lunch, deposit]"
  by (simp_all add: example_defs strptime_examples)



subsection \<open>Aggregation, savings and the remaining spending budget\<close>

lemma category_neq:
  "FOOD \<noteq> HOME"
  "FOOD \<noteq> WORK"
  "FOOD \<noteq> FUN"
  "FOOD \<noteq> MISC"
  "FOOD \<noteq> SAVINGS_CATEGORY"
  "FOOD \<noteq> SAVINGS_USE_CATEGORY"
  "FOOD \<noteq> ascii ''Legacy''"
  "HOME \<noteq> FOOD"
  "HOME \<noteq> WORK"
  "HOME \<noteq> FUN"
  "HOME \<noteq> MISC"
  "HOME \<noteq> SAVINGS_CATEGORY"
  "HOME \<noteq> SAVINGS_USE_CATEGORY"
  "HOME \<noteq> ascii ''Legacy''"
  "WORK \<noteq> FOOD"
  "WORK \<noteq> HOME"
  "WORK \<noteq> FUN"
  "WORK \<noteq> MISC"
  "WORK \<noteq> SAVINGS_CATEGORY"
  "WORK \<noteq> SAVINGS_USE_CATEGORY"
  "WORK \<noteq> ascii ''Legacy''"
  "FUN \<noteq> FOOD"
  "FUN \<noteq> HOME"
  "FUN \<noteq> WORK"
  "FUN \<noteq> MISC"
  "FUN \<noteq> SAVINGS_CATEGORY"
  "FUN \<noteq> SAVINGS_USE_CATEGORY"
  "FUN \<noteq> ascii ''Legacy''"
  "MISC \<noteq> FOOD"
  "MISC \<noteq> HOME"
  "MISC \<noteq> WORK"
  "MISC \<noteq> FUN"
  "MISC \<noteq> SAVINGS_CATEGORY"
  "MISC \<noteq> SAVINGS_USE_CATEGORY"
  "MISC \<noteq> ascii ''Legacy''"
  "SAVINGS_CATEGORY \<noteq> FOOD"
  "SAVINGS_CATEGORY \<noteq> HOME"
  "SAVINGS_CATEGORY \<noteq> WORK"
  "SAVINGS_CATEGORY \<noteq> FUN"
  "SAVINGS_CATEGORY \<noteq> MISC"
  "SAVINGS_CATEGORY \<noteq> SAVINGS_USE_CATEGORY"
  "SAVINGS_CATEGORY \<noteq> ascii ''Legacy''"
  "SAVINGS_USE_CATEGORY \<noteq> FOOD"
  "SAVINGS_USE_CATEGORY \<noteq> HOME"
  "SAVINGS_USE_CATEGORY \<noteq> WORK"
  "SAVINGS_USE_CATEGORY \<noteq> FUN"
  "SAVINGS_USE_CATEGORY \<noteq> MISC"
  "SAVINGS_USE_CATEGORY \<noteq> SAVINGS_CATEGORY"
  "SAVINGS_USE_CATEGORY \<noteq> ascii ''Legacy''"
  "ascii ''Legacy'' \<noteq> FOOD"
  "ascii ''Legacy'' \<noteq> HOME"
  "ascii ''Legacy'' \<noteq> WORK"
  "ascii ''Legacy'' \<noteq> FUN"
  "ascii ''Legacy'' \<noteq> MISC"
  "ascii ''Legacy'' \<noteq> SAVINGS_CATEGORY"
  "ascii ''Legacy'' \<noteq> SAVINGS_USE_CATEGORY"
  by (simp_all add: category_defs)

lemma period_label_march: "period_label (Some 3) (Some 2024) = Inr ()"
  by (simp add: period_label_def truthy_def month_name_def)

lemma example_fields:
  "category lunch = FOOD" "amount lunch = 150"
  "category rent = HOME" "amount rent = 500"
  "category withdrawal = SAVINGS_USE_CATEGORY" "amount withdrawal = 300"
  "category deposit = SAVINGS_CATEGORY" "amount deposit = 300"
  "category gift = ascii ''Legacy''" "amount gift = 20"
  by (simp_all add: example_defs)



text \<open>
  Claim C2. Whenever \<open>summarize_expenses\<close> produces a report (it does as soon as the
  period label can be printed and some record passes the filter), the report has one row
  per budget entry, in the order of the budget mapping, and the spent total of a row is
  the sum of the amounts of the filtered records with that row's category. The savings
  withdrawn are the sum of the amounts of the filtered records whose category is not a
  budget key and is the savings-use marker; records of any other category count
  nowhere. The total spent is the sum of the amounts of the filtered records whose
  category is a budget key, so it never contains the savings withdrawn. The adjusted
  savings goal is the initial savings goal (the budget of the savings category, or 0)
  less the savings withdrawn, with no floor at zero.
\<close>

theorem summarize_aggregation:
  "(period_label fm fy = Inr () \<and> filter_expenses sp fm fy xs \<noteq> [] \<longrightarrow>
      (\<exists>r. summarize_records sp now xs cb fm fy = Inr (Report r))) \<and>
   (\<forall>r. summarize_records sp now xs cb fm fy = Inr (Report r) \<longrightarrow>
      map row_category (rows r) = dict_keys cb \<and>
      (\<forall>row \<in> set (rows r).
         spent_amount row =
           (\<Sum>e\<leftarrow>filter (\<lambda>e. category e = row_category row) (filter_expenses sp fm fy xs).
              amount e)) \<and>
      total_savings_used r =
        (\<Sum>e\<leftarrow>filter (\<lambda>e. category e \<notin> set (dict_keys cb) \<and> category e = SAVINGS_USE_CATEGORY)
              (filter_expenses sp fm fy xs). amount e) \<and>
      total_spent r =
        (\<Sum>e\<leftarrow>filter (\<lambda>e. category e \<in> set (dict_keys cb)) (filter_expenses sp fm fy xs).
           amount e) \<and>
      initial_savings_goal r = dict_get_default cb SAVINGS_CATEGORY 0 \<and>
      adjusted_savings_goal r = initial_savings_goal r - total_savings_used r)"
proof (intro conjI impI allI)
  assume "period_label fm fy = Inr () \<and> filter_expenses sp fm fy xs \<noteq> []"
  then show "\<exists>r. summarize_records sp now xs cb fm fy = Inr (Report r)"
    by (simp add: summarize_records_Report_iff)
next
  fix r assume r: "summarize_records sp now xs cb fm fy = Inr (Report r)"
  note f = summarize_records_Report [OF r]
  show "map row_category (rows r) = dict_keys cb"
    by (simp add: f(1) row_fields dict_keys_def comp_def)
  show "\<forall>row \<in> set (rows r).
         spent_amount row =
           (\<Sum>e\<leftarrow>filter (\<lambda>e. category e = row_category row) (filter_expenses sp fm fy xs).
              amount e)"
  proof
    fix row assume "row \<in> set (rows r)"
    then obtain item where item: "item \<in> set cb"
      and row: "row = projr (report_row
             (fst (aggregate (filter_expenses sp fm fy xs)
                (foldl (\<lambda>d cat. dict_set d cat 0) [] (dict_keys cb), 0))) item)"
      by (auto simp add: f(1))
    have "fst item \<in> set (dict_keys cb)" using item by (simp add: dict_keys_def)
    then show "spent_amount row =
           (\<Sum>e\<leftarrow>filter (\<lambda>e. category e = row_category row) (filter_expenses sp fm fy xs).
              amount e)"
      by (simp add: row row_fields spent_of_key)
  qed
  show "total_savings_used r =
        (\<Sum>e\<leftarrow>filter (\<lambda>e. category e \<notin> set (dict_keys cb) \<and> category e = SAVINGS_USE_CATEGORY)
              (filter_expenses sp fm fy xs). amount e)"
    by (rule f(4))
  show "total_spent r =
        (\<Sum>e\<leftarrow>filter (\<lambda>e. category e \<in> set (dict_keys cb)) (filter_expenses sp fm fy xs).
           amount e)"
    by (rule f(3))
  show "initial_savings_goal r = dict_get_default cb SAVINGS_CATEGORY 0"
    by (rule f(5))
  show "adjusted_savings_goal r = initial_savings_goal r - total_savings_used r"
    by (rule f(6))
qed

theorem summarize_aggregation_witness:
  "(\<exists>r. summarize_records py_strptime end_of_march [lunch, withdrawal, gift]
           scenario_budgets (Some 3) (Some 2024) = Inr (Report r) \<and>
        total_spent r = 150 \<and> total_savings_used r = 300 \<and> adjusted_savings_goal r = 700) \<and>
   (\<exists>r. summarize_records py_strptime end_of_march [lunch, withdrawal, gift]
           small_budgets (Some 3) (Some 2024) = Inr (Report r) \<and>
        map spent_amount (rows r) = [150, 0, 0] \<and>
        total_spent r = 150 \<and> total_savings_used r = 300 \<and> adjusted_savings_goal r = - 200)"
proof
  have F: "filter_expenses py_strptime (Some 3) (Some 2024) [lunch, withdrawal, gift] =
             [lunch, withdrawal, gift]"
    by (rule filter_examples)
  note t = summarize_aggregation [where sp = py_strptime and now = end_of_march
      and xs = "[lunch, withdrawal, gift]" and cb = scenario_budgets
      and fm = "Some 3" and fy = "Some 2024"]
  have "\<exists>r. summarize_records py_strptime end_of_march [lunch, withdrawal, gift]
        scenario_budgets (Some 3) (Some 2024) = Inr (Report r)"
    by (rule t [THEN conjunct1, rule_format])
       (simp add: period_label_march F del: filter_expenses.simps)
  then obtain r where r: "summarize_records py_strptime end_of_march [lunch, withdrawal, gift]
        scenario_budgets (Some 3) (Some 2024) = Inr (Report r)" ..
  note f = t [THEN conjunct2, rule_format, OF r, THEN conjunct2, THEN conjunct2]
  have su: "total_savings_used r = 300"
    using f [THEN conjunct1]
    by (simp add: F scenario_budgets_def dict_keys_def example_fields category_neq
          del: filter_expenses.simps)
  have ts: "total_spent r = 150"
    using f [THEN conjunct2, THEN conjunct1]
    by (simp add: F scenario_budgets_def dict_keys_def example_fields category_neq
          del: filter_expenses.simps)
  have sg: "initial_savings_goal r = 1000"
    using f [THEN conjunct2, THEN conjunct2, THEN conjunct1]
    by (simp add: scenario_budgets_def dict_get_default_def category_neq)
  have "adjusted_savings_goal r = 700"
    using f [THEN conjunct2, THEN conjunct2, THEN conjunct2] by (simp add: sg su)
  with r ts su
  show "\<exists>r. summarize_records py_strptime end_of_march [lunch, withdrawal, gift]
           scenario_budgets (Some 3) (Some 2024) = Inr (Report r) \<and>
        total_spent r = 150 \<and> total_savings_used r = 300 \<and> adjusted_savings_goal r = 700"
    by (intro exI [of _ r]) simp
next
  have F: "filter_expenses py_strptime (Some 3) (Some 2024) [lunch, withdrawal, gift] =
             [lunch, withdrawal, gift]"
    by (rule filter_examples)
  note t = summarize_aggregation [where sp = py_strptime and now = end_of_march
      and xs = "[lunch, withdrawal, gift]" and cb = small_budgets
      and fm = "Some 3" and fy = "Some 2024"]
  have "\<exists>r. summarize_records py_strptime end_of_march [lunch, withdrawal, gift]
        small_budgets (Some 3) (Some 2024) = Inr (Report r)"
    by (rule t [THEN conjunct1, rule_format])
       (simp add: period_label_march F del: filter_expenses.simps)
  then obtain r where r: "summarize_records py_strptime end_of_march [lunch, withdrawal, gift]
        small_budgets (Some 3) (Some 2024) = Inr (Report r)" ..
  note g = t [THEN conjunct2, rule_format, OF r]
  note f = g [THEN conjunct2, THEN conjunct2]
  have su: "total_savings_used r = 300"
    using f [THEN conjunct1]
    by (simp add: F small_budgets_def dict_keys_def example_fields category_neq
          del: filter_expenses.simps)
  have ts: "total_spent r = 150"
    using f [THEN conjunct2, THEN conjunct1]
    by (simp add: F small_budgets_def dict_keys_def example_fields category_neq
          del: filter_expenses.simps)
  have sg: "initial_savings_goal r = 100"
    using f [THEN conjunct2, THEN conjunct2, THEN conjunct1]
    by (simp add: small_budgets_def dict_get_default_def category_neq)
  have adj: "adjusted_savings_goal r = - 200"
    using f [THEN conjunct2, THEN conjunct2, THEN conjunct2] by (simp add: sg su)
  have "map spent_amount (rows r) =
          map (\<lambda>row. \<Sum>e\<leftarrow>filter (\<lambda>e. category e = row_category row)
                 [lunch, withdrawal, gift]. amount e) (rows r)"
    using g [THEN conjunct2, THEN conjunct1] by (simp add: F del: filter_expenses.simps)
  also have "\<dots> = map (\<lambda>k. \<Sum>e\<leftarrow>filter (\<lambda>e. category e = k) [lunch, withdrawal, gift]. amount e)
                     (map row_category (rows r))"
    by (simp add: comp_def)
  also have "\<dots> = [150, 0, 0]"
    unfolding g [THEN conjunct1]
    by (simp add: small_budgets_def dict_keys_def example_fields category_neq)
  finally have "map spent_amount (rows r) = [150, 0, 0]" .
  with r ts su adj
  show "\<exists>r. summarize_records py_strptime end_of_march [lunch, withdrawal, gift]
           small_budgets (Some 3) (Some 2024) = Inr (Report r) \<and>
        map spent_amount (rows r) = [150, 0, 0] \<and>
        total_spent r = 150 \<and> total_savings_used r = 300 \<and> adjusted_savings_goal r = - 200"
    by (intro exI [of _ r]) simp
qed




subsection \<open>Daily limit and report rows\<close>

lemma days_in_month_valid:
  "1 \<le> month now \<and> month now \<le> 12 \<Longrightarrow>
     days_in_month now =
       int (mdays ! month now + (if month now = 2 \<and> isleap (year now) then 1 else 0))"
  by (simp add: days_in_month_def monthrange_def)

lemma filter_examples_single:
  "filter_expenses py_strptime (Some 3) (Some 2024) [lunch] = [lunch]"
  by (simp add: example_defs strptime_examples)

lemma current_month_examples:
  "month end_of_march = 3" "year end_of_march = 2024" "day end_of_march = 31"
  "month mid_march = 3" "year mid_march = 2024" "day mid_march = 22"
  "days_in_month end_of_march = 31" "days_in_month mid_march = 31"
  by (simp_all add: end_of_march_def mid_march_def days_in_month_def monthrange_def mdays_def)

lemma scenario_remaining:
  assumes r: "summarize_records py_strptime now [lunch, rent] scenario_budgets
                (Some 3) (Some 2024) = Inr (Report r)"
  shows "remaining_spending_budget r = 50"
proof -
  have F: "filter_expenses py_strptime (Some 3) (Some 2024) [lunch, rent] = [lunch, rent]"
    by (rule filter_examples)
  note f = summarize_records_Report [OF r]
  have "total_budget r = 1700"
    by (simp add: f(2) scenario_budgets_def dict_values_def)
  moreover have "initial_savings_goal r = 1000"
    by (simp add: f(5) scenario_budgets_def dict_get_default_def category_neq)
  moreover have "total_spent r = 650"
    by (simp add: f(3) F scenario_budgets_def dict_keys_def example_fields category_neq
          del: filter_expenses.simps)
  ultimately show ?thesis by (simp add: f(7))
qed

lemma single_row:
  assumes r: "summarize_records py_strptime now [lunch] [(FOOD, b)] (Some 3) (Some 2024) =
                Inr (Report r)"
  shows "\<exists>row. rows r = [row] \<and> budget_amount row = b \<and> spent_amount row = 150"
proof -
  have F: "filter_expenses py_strptime (Some 3) (Some 2024) [lunch] = [lunch]"
    by (rule filter_examples_single)
  let ?sbc = "fst (aggregate (filter_expenses py_strptime (Some 3) (Some 2024) [lunch])
                (foldl (\<lambda>d cat. dict_set d cat 0) [] (dict_keys [(FOOD, b)]), 0))"
  have k: "FOOD \<in> set (dict_keys [(FOOD, b)])" by (simp add: dict_keys_def)
  have rows: "rows r = [projr (report_row ?sbc (FOOD, b))]"
    using summarize_records_Report(1) [OF r]
    by (simp del: filter_expenses.simps aggregate.simps)
  have "dict_get_default ?sbc FOOD 0 =
          (\<Sum>e\<leftarrow>filter (\<lambda>e. category e = FOOD)
                (filter_expenses py_strptime (Some 3) (Some 2024) [lunch]). amount e)"
    by (rule spent_of_key [OF k])
  then have "dict_get_default ?sbc FOOD 0 = 150"
    by (simp add: F example_fields del: filter_expenses.simps aggregate.simps)
  then show ?thesis
    by (simp add: rows row_fields del: filter_expenses.simps aggregate.simps)
qed

text \<open>
  Claim C5. When the requested month and year are those of the current date, and a
  report is produced (it is as soon as some record passes the filter), the report
  carries the days left, which are the days of the current month less the current day
  of the month plus 1, and the daily budget, which is the remaining spending budget
  divided by the days left when these are above 0 and the remaining spending budget
  itself otherwise. On the last day of the month one day is left and the daily budget
  equals the remaining spending budget. For any other period the report carries no
  daily budget. No run of the summary, and no computation of the daily limit, ends in
  a division by zero.
\<close>

theorem summarize_daily_limit:
  "(1 \<le> month now \<and> month now \<le> 12 \<and>
    filter_expenses sp (Some (int (month now))) (Some (int (year now))) xs \<noteq> [] \<longrightarrow>
      (\<exists>r. summarize_records sp now xs cb (Some (int (month now))) (Some (int (year now))) =
             Inr (Report r))) \<and>
   (\<forall>r. summarize_records sp now xs cb (Some (int (month now))) (Some (int (year now))) =
          Inr (Report r) \<longrightarrow>
      daily r =
        Some (days_in_month now - int (day now) + 1,
              if days_in_month now - int (day now) + 1 > 0
              then remaining_spending_budget r /
                   real_of_int (days_in_month now - int (day now) + 1)
              else remaining_spending_budget r) \<and>
      (int (day now) = days_in_month now \<longrightarrow>
         daily r = Some (1, remaining_spending_budget r))) \<and>
   (\<forall>fm fy r. summarize_records sp now xs cb fm fy = Inr (Report r) \<and>
       \<not> (fm = Some (int (month now)) \<and> fy = Some (int (year now))) \<longrightarrow> daily r = None) \<and>
   (\<forall>fm fy. summarize_records sp now xs cb fm fy \<noteq> Inl ZeroDivisionError) \<and>
   (\<forall>b. daily_limit now b \<noteq> Inl ZeroDivisionError) \<and>
   (1 \<le> month now \<and> month now \<le> 12 \<longrightarrow>
      days_in_month now =
        int (mdays ! month now + (if month now = 2 \<and> isleap (year now) then 1 else 0)))"
proof (intro conjI impI allI)
  assume h: "1 \<le> month now \<and> month now \<le> 12 \<and>
    filter_expenses sp (Some (int (month now))) (Some (int (year now))) xs \<noteq> []"
  then have "period_label (Some (int (month now))) (Some (int (year now))) = Inr ()"
    by (intro period_label_ok) simp
  with h show "\<exists>r. summarize_records sp now xs cb (Some (int (month now)))
                    (Some (int (year now))) = Inr (Report r)"
    by (simp add: summarize_records_Report_iff)
next
  fix r
  assume r: "summarize_records sp now xs cb (Some (int (month now))) (Some (int (year now))) =
          Inr (Report r)"
  show d: "daily r =
        Some (days_in_month now - int (day now) + 1,
              if days_in_month now - int (day now) + 1 > 0
              then remaining_spending_budget r /
                   real_of_int (days_in_month now - int (day now) + 1)
              else remaining_spending_budget r)"
    by (simp add: summarize_records_Report(8) [OF r] daily_limit_eq)
  assume "int (day now) = days_in_month now"
  then show "daily r = Some (1, remaining_spending_budget r)"
    by (simp add: d)
next
  fix fm fy r
  assume "summarize_records sp now xs cb fm fy = Inr (Report r) \<and>
       \<not> (fm = Some (int (month now)) \<and> fy = Some (int (year now)))"
  then show "daily r = None"
    using summarize_records_Report(8) [of sp now xs cb fm fy r] by auto
next
  fix fm fy
  show "summarize_records sp now xs cb fm fy \<noteq> Inl ZeroDivisionError"
    by (rule summarize_records_no_zero_division)
next
  fix b show "daily_limit now b \<noteq> Inl ZeroDivisionError"
    by (simp add: daily_limit_eq)
next
  assume "1 \<le> month now \<and> month now \<le> 12"
  then show "days_in_month now =
        int (mdays ! month now + (if month now = 2 \<and> isleap (year now) then 1 else 0))"
    by (rule days_in_month_valid)
qed

theorem summarize_daily_limit_witness:
  "(\<exists>r. summarize_records py_strptime end_of_march [lunch, rent] scenario_budgets
           (Some 3) (Some 2024) = Inr (Report r) \<and>
        remaining_spending_budget r = 50 \<and> daily r = Some (1, 50)) \<and>
   (\<exists>r. summarize_records py_strptime mid_march [lunch, rent] scenario_budgets
           (Some 3) (Some 2024) = Inr (Report r) \<and>
        remaining_spending_budget r = 50 \<and> daily r = Some (10, 5))"
proof
  have F: "filter_expenses py_strptime (Some 3) (Some 2024) [lunch, rent] = [lunch, rent]"
    by (rule filter_examples)
  note t = summarize_daily_limit [where sp = py_strptime and now = end_of_march
      and xs = "[lunch, rent]" and cb = scenario_budgets, unfolded current_month_examples]
  have "\<exists>r. summarize_records py_strptime end_of_march [lunch, rent] scenario_budgets
           (Some (int 3)) (Some (int 2024)) = Inr (Report r)"
    by (rule t [THEN conjunct1, rule_format]) (simp add: F del: filter_expenses.simps)
  then obtain r where r: "summarize_records py_strptime end_of_march [lunch, rent]
      scenario_budgets (Some 3) (Some 2024) = Inr (Report r)" by auto
  have rem: "remaining_spending_budget r = 50"
    by (rule scenario_remaining [OF r])
  have "daily r = Some (1, 50)"
    using t [THEN conjunct2, THEN conjunct1, rule_format, of r] r by (simp add: rem)
  with r rem
  show "\<exists>r. summarize_records py_strptime end_of_march [lunch, rent] scenario_budgets
           (Some 3) (Some 2024) = Inr (Report r) \<and>
        remaining_spending_budget r = 50 \<and> daily r = Some (1, 50)"
    by (intro exI [of _ r]) simp
next
  have F: "filter_expenses py_strptime (Some 3) (Some 2024) [lunch, rent] = [lunch, rent]"
    by (rule filter_examples)
  note t = summarize_daily_limit [where sp = py_strptime and now = mid_march
      and xs = "[lunch, rent]" and cb = scenario_budgets, unfolded current_month_examples]
  have "\<exists>r. summarize_records py_strptime mid_march [lunch, rent] scenario_budgets
           (Some (int 3)) (Some (int 2024)) = Inr (Report r)"
    by (rule t [THEN conjunct1, rule_format]) (simp add: F del: filter_expenses.simps)
  then obtain r where r: "summarize_records py_strptime mid_march [lunch, rent]
      scenario_budgets (Some 3) (Some 2024) = Inr (Report r)" by auto
  have rem: "remaining_spending_budget r = 50"
    by (rule scenario_remaining [OF r])
  have "daily r = Some (10, 5)"
    using t [THEN conjunct2, THEN conjunct1, rule_format, of r] r by (simp add: rem)
  with r rem
  show "\<exists>r. summarize_records py_strptime mid_march [lunch, rent] scenario_budgets
           (Some 3) (Some 2024) = Inr (Report r) \<and>
        remaining_spending_budget r = 50 \<and> daily r = Some (10, 5)"
    by (intro exI [of _ r]) simp
qed

text \<open>
  Claim C6. Whenever a report is produced, it has one row per budget entry, and in every
  row: the remaining amount is the budget less the spent amount; a budget of 0 gives a
  utilisation of 0 and a remaining amount of minus the spent amount; a budget above 0
  gives the utilisation spent / budget; the number of filled cells of the bar is at
  most the full length of 30, and a utilisation above 1 gives the full red bar. No row,
  and no run of the summary, ends in a division by zero.
\<close>

theorem summarize_report_rows:
  "(period_label fm fy = Inr () \<and> filter_expenses sp fm fy xs \<noteq> [] \<longrightarrow>
      (\<exists>r. summarize_records sp now xs cb fm fy = Inr (Report r))) \<and>
   (\<forall>r. summarize_records sp now xs cb fm fy = Inr (Report r) \<longrightarrow>
      map (\<lambda>row. (row_category row, budget_amount row)) (rows r) = cb \<and>
      (\<forall>row \<in> set (rows r).
         remaining row = budget_amount row - spent_amount row \<and>
         (budget_amount row = 0 \<longrightarrow>
            percentage_used row = 0 \<and> remaining row = - spent_amount row) \<and>
         (budget_amount row > 0 \<longrightarrow>
            percentage_used row = spent_amount row / budget_amount row) \<and>
         (budget_amount row \<le> 0 \<longrightarrow> percentage_used row = 0) \<and>
         filled_length row \<le> BAR_LENGTH \<and>
         bar_filled (row_bar row) \<le> nat BAR_LENGTH \<and>
         (percentage_used row > 1 \<longrightarrow> row_bar row = Red (nat BAR_LENGTH)))) \<and>
   summarize_records sp now xs cb fm fy \<noteq> Inl ZeroDivisionError \<and>
   (\<forall>sbc item. report_row sbc item \<noteq> Inl ZeroDivisionError)"
proof (intro conjI impI allI)
  assume "period_label fm fy = Inr () \<and> filter_expenses sp fm fy xs \<noteq> []"
  then show "\<exists>r. summarize_records sp now xs cb fm fy = Inr (Report r)"
    by (simp add: summarize_records_Report_iff)
next
  fix r assume r: "summarize_records sp now xs cb fm fy = Inr (Report r)"
  let ?sbc = "fst (aggregate (filter_expenses sp fm fy xs)
                (foldl (\<lambda>d cat. dict_set d cat 0) [] (dict_keys cb), 0))"
  have rows: "rows r = map (\<lambda>item. projr (report_row ?sbc item)) cb"
    by (rule summarize_records_Report(1) [OF r])
  show "map (\<lambda>row. (row_category row, budget_amount row)) (rows r) = cb"
    by (simp add: rows comp_def row_fields)
  show "\<forall>row \<in> set (rows r).
         remaining row = budget_amount row - spent_amount row \<and>
         (budget_amount row = 0 \<longrightarrow>
            percentage_used row = 0 \<and> remaining row = - spent_amount row) \<and>
         (budget_amount row > 0 \<longrightarrow>
            percentage_used row = spent_amount row / budget_amount row) \<and>
         (budget_amount row \<le> 0 \<longrightarrow> percentage_used row = 0) \<and>
         filled_length row \<le> BAR_LENGTH \<and>
         bar_filled (row_bar row) \<le> nat BAR_LENGTH \<and>
         (percentage_used row > 1 \<longrightarrow> row_bar row = Red (nat BAR_LENGTH))"
  proof
    fix row assume "row \<in> set (rows r)"
    then obtain item where row: "row = projr (report_row ?sbc item)"
      by (auto simp add: rows)
    define b where "b = snd item"
    define s where "s = dict_get_default ?sbc (fst item) 0"
    define p where "p = (if b > 0 then s / b else 0)"
    have fields: "budget_amount row = b" "spent_amount row = s" "remaining row = b - s"
      "percentage_used row = p"
      "filled_length row = py_int (real_of_int BAR_LENGTH * min p 1)"
      "row_bar row =
         (if b - s \<ge> 0
          then Green (nat (py_int (real_of_int BAR_LENGTH * min p 1)))
                 (nat (BAR_LENGTH - py_int (real_of_int BAR_LENGTH * min p 1)))
          else Red (nat BAR_LENGTH))"
      by (simp_all add: row row_fields b_def s_def p_def)
    have over: "p > 1 \<Longrightarrow> b - s < 0"
      by (cases "b > 0") (simp_all add: p_def field_simps)
    have bar: "bar_filled (row_bar row) \<le> nat BAR_LENGTH"
      using filled_le [of p] by (auto simp add: fields nat_mono)
    show "remaining row = budget_amount row - spent_amount row \<and>
         (budget_amount row = 0 \<longrightarrow>
            percentage_used row = 0 \<and> remaining row = - spent_amount row) \<and>
         (budget_amount row > 0 \<longrightarrow>
            percentage_used row = spent_amount row / budget_amount row) \<and>
         (budget_amount row \<le> 0 \<longrightarrow> percentage_used row = 0) \<and>
         filled_length row \<le> BAR_LENGTH \<and>
         bar_filled (row_bar row) \<le> nat BAR_LENGTH \<and>
         (percentage_used row > 1 \<longrightarrow> row_bar row = Red (nat BAR_LENGTH))"
      using over bar filled_le [of p]
      by (simp add: fields(1-5)) (auto simp add: fields(6) p_def)
  qed
next
  show "summarize_records sp now xs cb fm fy \<noteq> Inl ZeroDivisionError"
    by (rule summarize_records_no_zero_division)
next
  fix sbc :: "real dict" and item :: "pystr \<times> real"
  show "report_row sbc item \<noteq> Inl ZeroDivisionError"
    using report_row_total [of sbc item] by auto
qed

theorem summarize_report_rows_witness:
  "(\<exists>r row. summarize_records py_strptime end_of_march [lunch] [(FOOD, 0)]
           (Some 3) (Some 2024) = Inr (Report r) \<and> rows r = [row] \<and>
        budget_amount row = 0 \<and> percentage_used row = 0 \<and> remaining row = - 150 \<and>
        bar_filled (row_bar row) \<le> 30) \<and>
   (\<exists>r row. summarize_records py_strptime end_of_march [lunch] [(FOOD, 100)]
           (Some 3) (Some 2024) = Inr (Report r) \<and> rows r = [row] \<and>
        percentage_used row = 3 / 2 \<and> row_bar row = Red 30 \<and>
        bar_filled (row_bar row) \<le> 30)"
proof
  have F: "filter_expenses py_strptime (Some 3) (Some 2024) [lunch] = [lunch]"
    by (rule filter_examples_single)
  note t = summarize_report_rows [where sp = py_strptime and now = end_of_march
      and xs = "[lunch]" and cb = "[(FOOD, 0)]" and fm = "Some 3" and fy = "Some 2024"]
  have "\<exists>r. summarize_records py_strptime end_of_march [lunch] [(FOOD, 0)]
           (Some 3) (Some 2024) = Inr (Report r)"
    by (rule t [THEN conjunct1, rule_format])
       (simp add: period_label_march F del: filter_expenses.simps)
  then obtain r where r: "summarize_records py_strptime end_of_march [lunch] [(FOOD, 0)]
           (Some 3) (Some 2024) = Inr (Report r)" ..
  obtain row where row: "rows r = [row]" "budget_amount row = 0" "spent_amount row = 150"
    using single_row [OF r] by auto
  have "row \<in> set (rows r)" by (simp add: row)
  with t [THEN conjunct2, THEN conjunct1, rule_format, OF r, THEN conjunct2]
  have "percentage_used row = 0 \<and> remaining row = - 150 \<and> bar_filled (row_bar row) \<le> 30"
    using row by (auto simp add: BAR_LENGTH_def)
  with r row
  show "\<exists>r row. summarize_records py_strptime end_of_march [lunch] [(FOOD, 0)]
           (Some 3) (Some 2024) = Inr (Report r) \<and> rows r = [row] \<and>
        budget_amount row = 0 \<and> percentage_used row = 0 \<and> remaining row = - 150 \<and>
        bar_filled (row_bar row) \<le> 30"
    by (intro exI [of _ r] exI [of _ row]) simp
next
  have F: "filter_expenses py_strptime (Some 3) (Some 2024) [lunch] = [lunch]"
    by (rule filter_examples_single)
  note t = summarize_report_rows [where sp = py_strptime and now = end_of_march
      and xs = "[lunch]" and cb = "[(FOOD, 100)]" and fm = "Some 3" and fy = "Some 2024"]
  have "\<exists>r. summarize_records py_strptime end_of_march [lunch] [(FOOD, 100)]
           (Some 3) (Some 2024) = Inr (Report r)"
    by (rule t [THEN conjunct1, rule_format])
       (simp add: period_label_march F del: filter_expenses.simps)
  then obtain r where r: "summarize_records py_strptime end_of_march [lunch] [(FOOD, 100)]
           (Some 3) (Some 2024) = Inr (Report r)" ..
  obtain row where row: "rows r = [row]" "budget_amount row = 100" "spent_amount row = 150"
    using single_row [OF r] by auto
  have "row \<in> set (rows r)" by (simp add: row)
  with t [THEN conjunct2, THEN conjunct1, rule_format, OF r, THEN conjunct2]
  have "percentage_used row = 3 / 2 \<and> row_bar row = Red 30 \<and> bar_filled (row_bar row) \<le> 30"
    using row by (auto simp add: BAR_LENGTH_def)
  with r row
  show "\<exists>r row. summarize_records py_strptime end_of_march [lunch] [(FOOD, 100)]
           (Some 3) (Some 2024) = Inr (Report r) \<and> rows r = [row] \<and>
        percentage_used row = 3 / 2 \<and> row_bar row = Red 30 \<and>
        bar_filled (row_bar row) \<le> 30"
    by (intro exI [of _ r] exI [of _ row]) simp
qed

subsection \<open>Lines of the store\<close>

lemma is_space_10: "is_space 10" by (simp add: is_space_def)
lemma not_space_44: "\<not> is_space 44" by (simp add: is_space_def)

lemma strip_append_space: "is_space c \<Longrightarrow> strip (l @ [c]) = strip l"
proof (cases "\<forall>x \<in> set l. is_space x")
  case True
  assume c: "is_space c"
  from True have h: "dropWhile is_space l = []" by simp
  show ?thesis using c by (simp add: strip_def dropWhile_append h)
next
  case False
  assume "is_space c"
  with False show ?thesis by (auto simp add: strip_def dropWhile_append)
qed

lemma strip_id: "l \<noteq> [] \<Longrightarrow> \<not> is_space (hd l) \<Longrightarrow> \<not> is_space (last l) \<Longrightarrow> strip l = l"
proof -
  assume a: "l \<noteq> []" "\<not> is_space (hd l)" "\<not> is_space (last l)"
  then have "dropWhile is_space l = l" by (cases l) auto
  moreover have "dropWhile is_space (rev l) = rev l"
    using a by (cases "rev l") (auto simp add: last_rev hd_rev)
  ultimately show ?thesis by (simp add: strip_def)
qed

lemma py_split_no_sep: "sep \<notin> set l \<Longrightarrow> py_split sep l = [l]"
  by (induction l) auto

lemma py_split_append:
  "sep \<notin> set l \<Longrightarrow> py_split sep (l @ sep # rest) = l # py_split sep rest"
  by (induction l) auto

lemma universal_newlines_line:
  "13 \<notin> set l \<Longrightarrow> universal_newlines (l @ 10 # rest) = l @ 10 # universal_newlines rest"
proof (induction l)
  case Nil
  then show ?case by (cases rest) auto
next
  case (Cons c l)
  then show ?case by (cases "l @ 10 # rest") auto
qed

lemma readlines_line:
  "10 \<notin> set l \<Longrightarrow> readlines (l @ 10 # rest) = (l @ [10]) # readlines rest"
  by (induction l) auto

lemma dec_digits_set: "set (dec_digits n) \<subseteq> {48..57}"
proof (induction n rule: dec_digits.induct)
  case (1 n)
  show ?case
  proof (cases "n < 10")
    case True
    then show ?thesis by (subst dec_digits.simps) auto
  next
    case False
    have "n mod 10 < 10" by simp
    then have "48 + n mod 10 \<in> {48..57}" by auto
    with 1 False show ?thesis by (subst dec_digits.simps) auto
  qed
qed

lemma zero_pad2_set: "set (zero_pad2 n) \<subseteq> {48..57}"
proof -
  have "n div 10 mod 10 < 10" "n mod 10 < 10" by simp_all
  then show ?thesis by (auto simp add: zero_pad2_def)
qed

lemma format_2f_set: "set (format_2f x) \<subseteq> {45, 46} \<union> {48..57}"
  using dec_digits_set [of "hundredths x div 100"] zero_pad2_set [of "hundredths x mod 100"]
  by (auto simp add: format_2f_def)

lemma format_2f_chars:
  "44 \<notin> set (format_2f x)" "10 \<notin> set (format_2f x)" "13 \<notin> set (format_2f x)"
  using format_2f_set [of x] by auto

lemma load_line_expense_line:
  assumes st: "storable e" and pf: "pyfloat (format_2f (amount e)) = Some a"
  shows "load_line pyfloat clk (es, out, t) (expense_line e) = (es @ [e\<lparr>amount := a\<rparr>], out, t)"
proof -
  let ?body = "name e @ 44 # format_2f (amount e) @ 44 # category e @ 44 # timestamp e"
  have ts: "timestamp e \<noteq> []" "\<not> is_space (last (timestamp e))"
    and nm: "name e = [] \<or> \<not> is_space (hd (name e))"
    and no44: "44 \<notin> set (name e)" "44 \<notin> set (category e)" "44 \<notin> set (timestamp e)"
    using st by (auto simp add: storable_def)
  have hd: "\<not> is_space (hd ?body)"
    using nm not_space_44 by (cases "name e") auto
  have last: "\<not> is_space (last ?body)"
    using ts by simp
  have "strip (expense_line e) = strip ?body"
    using strip_append_space [OF is_space_10, of ?body] by (simp add: expense_line_def)
  also have "\<dots> = ?body"
    by (rule strip_id) (use hd last in simp_all)
  finally have strip: "strip (expense_line e) = ?body" .
  have split: "py_split 44 ?body =
      [name e, format_2f (amount e), category e, timestamp e]"
    using no44 format_2f_chars(1) [of "amount e"]
    by (simp add: py_split_append py_split_no_sep)
  have "e\<lparr>amount := a\<rparr> =
      \<lparr>name = name e, category = category e, amount = a, timestamp = timestamp e\<rparr>"
    by simp
  then show ?thesis
    using ts(1) pf by (simp add: strip split Expense_def Let_def)
qed

lemma readlines_expense_lines:
  assumes "\<forall>e \<in> set xs. storable e"
  shows "readlines (universal_newlines (concat (map expense_line xs))) = map expense_line xs"
  using assms
proof (induction xs)
  case Nil
  then show ?case by simp
next
  case (Cons e xs)
  let ?body = "name e @ 44 # format_2f (amount e) @ 44 # category e @ 44 # timestamp e"
  have st: "storable e" using Cons.prems by simp
  have no: "13 \<notin> set ?body" "10 \<notin> set ?body"
    using st format_2f_chars [of "amount e"] by (auto simp add: storable_def)
  have line: "expense_line e = ?body @ [10]" by (simp add: expense_line_def)
  have "readlines (universal_newlines (?body @ 10 # concat (map expense_line xs))) =
          (?body @ [10]) # readlines (universal_newlines (concat (map expense_line xs)))"
    by (simp only: universal_newlines_line [OF no(1)] readlines_line [OF no(2)])
  then show ?case using Cons by (simp add: line)
qed

lemma foldl_load_expense_lines:
  assumes "\<forall>e \<in> set xs. storable e \<and> pyfloat (format_2f (amount e)) = Some (round_2dp (amount e))"
  shows "foldl (load_line pyfloat clk) (es, out, t) (map expense_line xs) =
           (es @ map (\<lambda>e. e\<lparr>amount := round_2dp (amount e)\<rparr>) xs, out, t)"
  using assms
proof (induction xs arbitrary: es)
  case Nil
  then show ?case by simp
next
  case (Cons e xs)
  have "load_line pyfloat clk (es, out, t) (expense_line e) =
          (es @ [e\<lparr>amount := round_2dp (amount e)\<rparr>], out, t)"
    using Cons.prems by (intro load_line_expense_line) simp_all
  then show ?case using Cons by simp
qed

lemma load_save_all:
  assumes "\<forall>e \<in> set xs. storable e \<and> pyfloat (format_2f (amount e)) = Some (round_2dp (amount e))"
  shows "load_expenses pyfloat clk t (save_all_expenses xs) =
           (map (\<lambda>e. e\<lparr>amount := round_2dp (amount e)\<rparr>) xs, [], t)"
proof -
  have "\<forall>e \<in> set xs. storable e" using assms by simp
  then show ?thesis
    using foldl_load_expense_lines [OF assms, of clk "[]" "[]" t]
    by (simp add: load_expenses_def save_all_expenses_def readlines_expense_lines)
qed

subsection \<open>Loading and saving\<close>



lemma split_three_nonblank: "3 \<le> length (py_split 44 l) \<Longrightarrow> l \<noteq> []"
  by (cases l) auto


lemma load_line_three:
  "length (py_split 44 (strip raw)) = 3 \<Longrightarrow> pyfloat (py_split 44 (strip raw) ! 1) = Some a \<Longrightarrow>
     load_line pyfloat clk (es, out, t) raw =
       (es @ [\<lparr>name = py_split 44 (strip raw) ! 0, category = py_split 44 (strip raw) ! 2,
               amount = a, timestamp = strftime (clk t)\<rparr>], out, Suc t)"
  using split_three_nonblank [of "strip raw"] by (simp add: Let_def Expense_def)


lemma load_line_newline: "load_line pyfloat clk st (l @ [10]) = load_line pyfloat clk st l"
proof -
  obtain es out t where st: "st = (es, out, t)" by (cases st)
  show ?thesis unfolding st
    by (simp only: load_line.simps strip_append_space [OF is_space_10])
qed







lemma format_2f_examples:
  "format_2f 150 = ascii ''150.00''" "format_2f 500 = ascii ''500.00''"
  "format_2f 300 = ascii ''300.00''"
  by (simp_all add: format_2f_def hundredths_def round_half_even_def zero_pad2_def
        dec_digits.simps ascii_def)

lemma round_2dp_examples: "round_2dp 150 = 150" "round_2dp 500 = 500" "round_2dp 300 = 300"
  by (simp_all add: round_2dp_def hundredths_def round_half_even_def)

lemmas plain_eval = pyfloat_plain_def pyint_plain_def split_sign_def strip_def is_space_def
  is_digit_def digits_value_def ascii_def

lemma pyfloat_plain_examples:
  "pyfloat_plain (ascii ''150.00'') = Some 150" "pyfloat_plain (ascii ''500.00'') = Some 500"
  "pyfloat_plain (ascii ''300.00'') = Some 300" "pyfloat_plain (ascii ''1'') = Some 1"
  "pyfloat_plain (ascii ''zz'') = None"
  by (simp_all add: plain_eval)

lemma storable_examples: "storable lunch" "storable rent" "storable withdrawal"
  by (simp_all add: storable_def example_defs category_defs is_space_def)

lemma stored_examples:
  "storable lunch \<and> pyfloat_plain (format_2f (amount lunch)) = Some (round_2dp (amount lunch))"
  "storable rent \<and> pyfloat_plain (format_2f (amount rent)) = Some (round_2dp (amount rent))"
  "storable withdrawal \<and>
     pyfloat_plain (format_2f (amount withdrawal)) = Some (round_2dp (amount withdrawal))"
  by (simp_all add: storable_examples example_fields format_2f_examples round_2dp_examples
        pyfloat_plain_examples)

lemma rounded_examples:
  "lunch\<lparr>amount := round_2dp (amount lunch)\<rparr> = lunch"
  "rent\<lparr>amount := round_2dp (amount rent)\<rparr> = rent"
  "withdrawal\<lparr>amount := round_2dp (amount withdrawal)\<rparr> = withdrawal"
  by (simp_all add: example_defs round_2dp_examples)

lemma line_examples:
  "strip (ascii ''a,1,b'') = ascii ''a,1,b''"
  "py_split 44 (ascii ''a,1,b'') = [ascii ''a'', ascii ''1'', ascii ''b'']"
  "strip (ascii ''x,y'') = ascii ''x,y''"
  "py_split 44 (ascii ''x,y'') = [ascii ''x'', ascii ''y'']"
  "strip (ascii ''c,zz,d'') = ascii ''c,zz,d''"
  "py_split 44 (ascii ''c,zz,d'') = [ascii ''c'', ascii ''zz'', ascii ''d'']"
  "strip [10] = []"
  by (simp_all add: strip_def is_space_def ascii_def)






lemma read_expense_name_keeps_space:
  "read_expense_name (name padded_lunch # inputs) = Inr (name padded_lunch, inputs)"
  by (simp add: padded_lunch_def strip_def is_space_def ascii_def)


subsection \<open>Deleting a record\<close>

lemma pop_nth:
  "i < length xs \<Longrightarrow> j < length xs - 1 \<Longrightarrow>
     (take i xs @ drop (Suc i) xs) ! j = (if j < i then xs ! j else xs ! Suc j)"
  by (auto simp add: nth_append min_def)

lemma stored_three:
  "load_expenses pyfloat_plain frozen_clock 0 (save_all_expenses [lunch, rent, withdrawal]) =
     ([lunch, rent, withdrawal], [], 0)"
  using load_save_all [of "[lunch, rent, withdrawal]" pyfloat_plain frozen_clock 0]
  by (simp add: stored_examples rounded_examples)

lemma selection_examples:
  "pyint_plain (ascii ''2'') = Some 2" "pyint_plain (ascii ''7'') = Some 7"
  "\<not> lower_is_c (ascii ''2'')" "\<not> lower_is_c (ascii ''7'')"
  "lower_is_c (ascii ''c'')" "lower_is_c (ascii ''C'')"
  by (simp_all add: plain_eval lower_is_c_def)

text \<open>
  Claim C9. Let the store load as \<open>n\<close> records. When the user's first answer is a
  number \<open>k\<close> between 1 and \<open>n\<close>, \<open>delete_expense\<close> reports the name of the \<open>k\<close>-th
  record and overwrites the store with the other \<open>n - 1\<close> records in their original
  order. When the answer is a number outside 1 to \<open>n\<close>, it reports an invalid number,
  writes nothing and asks again (a cancel as the next answer leaves the store as it
  was). When the answer is the cancel sentinel, it stops and the store is unchanged.
  With no records at all it stops at once, the store unchanged.
\<close>

theorem delete_expense_by_index:
  assumes "load_expenses pyfloat clk t file = (all_expenses, out, t')"
  shows
  "(all_expenses \<noteq> [] \<and> \<not> lower_is_c selection \<and> pyint selection = Some k \<and>
    1 \<le> k \<and> k \<le> int (length all_expenses) \<longrightarrow>
      delete_expense pyfloat pyint clk t file (selection # inputs) =
        Inr \<lparr>store = save_all_expenses
                        (take (nat (k - 1)) all_expenses @ drop (nat k) all_expenses),
             printed = out @ [Deleted (name (all_expenses ! nat (k - 1)))],
             ticks = t', unread = inputs\<rparr> \<and>
      length (take (nat (k - 1)) all_expenses @ drop (nat k) all_expenses) =
        length all_expenses - 1 \<and>
      (\<forall>j < length all_expenses - 1.
         (take (nat (k - 1)) all_expenses @ drop (nat k) all_expenses) ! j =
           (if j < nat (k - 1) then all_expenses ! j else all_expenses ! Suc j))) \<and>
   (all_expenses \<noteq> [] \<and> \<not> lower_is_c selection \<and> pyint selection = Some k \<and>
    (k < 1 \<or> int (length all_expenses) < k) \<longrightarrow>
      delete_loop pyint all_expenses (selection # inputs) out =
        delete_loop pyint all_expenses inputs (out @ [InvalidNumber]) \<and>
      delete_expense pyfloat pyint clk t file [selection] = Inl EOFError \<and>
      (lower_is_c cancel \<longrightarrow>
         delete_expense pyfloat pyint clk t file (selection # cancel # inputs) =
           Inr \<lparr>store = file, printed = out @ [InvalidNumber, DeletionCancelled],
                ticks = t', unread = inputs\<rparr>)) \<and>
   (all_expenses \<noteq> [] \<and> lower_is_c selection \<longrightarrow>
      delete_expense pyfloat pyint clk t file (selection # inputs) =
        Inr \<lparr>store = file, printed = out @ [DeletionCancelled], ticks = t', unread = inputs\<rparr>) \<and>
   (all_expenses = [] \<longrightarrow>
      delete_expense pyfloat pyint clk t file inputs =
        Inr \<lparr>store = file, printed = out @ [NoExpensesToDelete], ticks = t', unread = inputs\<rparr>)"
proof (intro conjI impI allI)
  assume h: "all_expenses \<noteq> [] \<and> \<not> lower_is_c selection \<and> pyint selection = Some k \<and>
    1 \<le> k \<and> k \<le> int (length all_expenses)"
  then have k: "Suc (nat (k - 1)) = nat k" "nat (k - 1) < length all_expenses"
    by auto
  show "delete_expense pyfloat pyint clk t file (selection # inputs) =
        Inr \<lparr>store = save_all_expenses
                        (take (nat (k - 1)) all_expenses @ drop (nat k) all_expenses),
             printed = out @ [Deleted (name (all_expenses ! nat (k - 1)))],
             ticks = t', unread = inputs\<rparr>"
    using h by (simp add: delete_expense_def assms Let_def k(1))
  show "length (take (nat (k - 1)) all_expenses @ drop (nat k) all_expenses) =
        length all_expenses - 1"
    using h by auto
  fix j assume "j < length all_expenses - 1"
  then show "(take (nat (k - 1)) all_expenses @ drop (nat k) all_expenses) ! j =
           (if j < nat (k - 1) then all_expenses ! j else all_expenses ! Suc j)"
    using pop_nth [OF k(2), of j] by (simp add: k(1))
next
  assume h: "all_expenses \<noteq> [] \<and> \<not> lower_is_c selection \<and> pyint selection = Some k \<and>
    (k < 1 \<or> int (length all_expenses) < k)"
  then show l: "delete_loop pyint all_expenses (selection # inputs) out =
        delete_loop pyint all_expenses inputs (out @ [InvalidNumber])"
    by (auto simp add: Let_def)
  show "delete_expense pyfloat pyint clk t file [selection] = Inl EOFError"
    using h by (auto simp add: delete_expense_def assms Let_def)
  assume "lower_is_c cancel"
  then show "delete_expense pyfloat pyint clk t file (selection # cancel # inputs) =
           Inr \<lparr>store = file, printed = out @ [InvalidNumber, DeletionCancelled],
                ticks = t', unread = inputs\<rparr>"
    using h by (auto simp add: delete_expense_def assms Let_def)
next
  assume "all_expenses \<noteq> [] \<and> lower_is_c selection"
  then show "delete_expense pyfloat pyint clk t file (selection # inputs) =
        Inr \<lparr>store = file, printed = out @ [DeletionCancelled], ticks = t', unread = inputs\<rparr>"
    by (simp add: delete_expense_def assms)
next
  assume "all_expenses = []"
  then show "delete_expense pyfloat pyint clk t file inputs =
        Inr \<lparr>store = file, printed = out @ [NoExpensesToDelete], ticks = t', unread = inputs\<rparr>"
    by (simp add: delete_expense_def assms)
qed

theorem delete_expense_by_index_witness:
  "delete_expense pyfloat_plain pyint_plain frozen_clock 0
     (save_all_expenses [lunch, rent, withdrawal]) [ascii ''2''] =
     Inr \<lparr>store = save_all_expenses [lunch, withdrawal], printed = [Deleted (name rent)],
          ticks = 0, unread = []\<rparr> \<and>
   delete_expense pyfloat_plain pyint_plain frozen_clock 0
     (save_all_expenses [lunch, rent, withdrawal]) [ascii ''7'', ascii ''c''] =
     Inr \<lparr>store = save_all_expenses [lunch, rent, withdrawal],
          printed = [InvalidNumber, DeletionCancelled], ticks = 0, unread = []\<rparr> \<and>
   delete_expense pyfloat_plain pyint_plain frozen_clock 0
     (save_all_expenses [lunch, rent, withdrawal]) [ascii ''C''] =
     Inr \<lparr>store = save_all_expenses [lunch, rent, withdrawal],
          printed = [DeletionCancelled], ticks = 0, unread = []\<rparr> \<and>
   delete_expense pyfloat_plain pyint_plain frozen_clock 0 None [ascii ''2''] =
     Inr \<lparr>store = None, printed = [InfoFileNotFound, NoExpensesToDelete],
          ticks = 0, unread = [ascii ''2'']\<rparr>"
proof -
  note valid = delete_expense_by_index [OF stored_three, where pyint = pyint_plain
      and selection = "ascii ''2''" and k = 2 and inputs = "[]"]
  note bound = delete_expense_by_index [OF stored_three, where pyint = pyint_plain
      and selection = "ascii ''7''" and k = 7 and inputs = "[]" and cancel = "ascii ''c''"]
  note stop = delete_expense_by_index [OF stored_three, where pyint = pyint_plain
      and selection = "ascii ''C''" and inputs = "[]"]
  have missing: "load_expenses pyfloat_plain frozen_clock 0 None = ([], [InfoFileNotFound], 0)"
    by (simp add: load_expenses_def)
  note none = delete_expense_by_index [OF missing, where pyint = pyint_plain
      and inputs = "[ascii ''2'']"]
  have 1: "delete_expense pyfloat_plain pyint_plain frozen_clock 0
     (save_all_expenses [lunch, rent, withdrawal]) [ascii ''2''] =
     Inr \<lparr>store = save_all_expenses [lunch, withdrawal], printed = [Deleted (name rent)],
          ticks = 0, unread = []\<rparr>"
    using valid [THEN conjunct1] by (simp add: selection_examples)
  have 2: "delete_expense pyfloat_plain pyint_plain frozen_clock 0
     (save_all_expenses [lunch, rent, withdrawal]) [ascii ''7'', ascii ''c''] =
     Inr \<lparr>store = save_all_expenses [lunch, rent, withdrawal],
          printed = [InvalidNumber, DeletionCancelled], ticks = 0, unread = []\<rparr>"
    using bound [THEN conjunct2, THEN conjunct1] by (simp add: selection_examples)
  have 3: "delete_expense pyfloat_plain pyint_plain frozen_clock 0
     (save_all_expenses [lunch, rent, withdrawal]) [ascii ''C''] =
     Inr \<lparr>store = save_all_expenses [lunch, rent, withdrawal],
          printed = [DeletionCancelled], ticks = 0, unread = []\<rparr>"
    using stop [THEN conjunct2, THEN conjunct2, THEN conjunct1] by (simp add: selection_examples)
  have 4: "delete_expense pyfloat_plain pyint_plain frozen_clock 0 None [ascii ''2''] =
     Inr \<lparr>store = None, printed = [InfoFileNotFound, NoExpensesToDelete],
          ticks = 0, unread = [ascii ''2'']\<rparr>"
    using none [THEN conjunct2, THEN conjunct2, THEN conjunct2] by simp
  show ?thesis using 1 2 3 4 by blast
qed

subsection \<open>Timestamps written and read back\<close>

lemma digit_not_space: "d \<le> 9 \<Longrightarrow> \<not> is_space (48 + d)"
  by (simp add: is_space_def)

lemma four_digits:
  assumes "y \<le> 9999"
  shows "1000 * (y div 1000 mod 10) + 100 * (y div 100 mod 10) + 10 * (y div 10 mod 10) +
           y mod 10 = (y::nat)"
proof -
  have a: "y = 10 * (y div 10) + y mod 10" by simp
  have "y div 10 div 10 = y div 100" "y div 100 div 10 = y div 1000"
    by (simp_all add: div_mult2_eq [symmetric])
  then have b: "y div 10 = 10 * (y div 100) + y div 10 mod 10"
    and c: "y div 100 = 10 * (y div 1000) + y div 100 mod 10"
    by (metis mult_div_mod_eq)+
  have "y div 1000 < 10" using assms by (simp add: div_less_iff_less_mult)
  then have d: "y div 1000 mod 10 = y div 1000" by simp
  show ?thesis using a b c d by linarith
qed

lemma four_digit_value:
  "digits_value [48 + a, 48 + b, 48 + c, 48 + d] = 1000 * a + 100 * b + 10 * c + d"
  by (simp add: digits_value_def)

lemma mod10_le: "(n::nat) mod 10 \<le> 9"
proof -
  have "n mod 10 < 10" by simp
  then show ?thesis by linarith
qed

lemma re_Y_pad:
  assumes "y \<le> 9999"
  shows "re_Y (zero_pad4 y @ rest) = [(y, rest)]"
  by (simp add: re_Y_def zero_pad4_def is_digit_def four_digit_value four_digits [OF assms]
        mod10_le)

lemma bind_first:
  "\<exists>xs'. xs = x # xs' \<Longrightarrow> \<exists>ys. f x = y # ys \<Longrightarrow> \<exists>zs. List.bind xs f = y # zs"
  by (auto simp add: List.bind_def)

lemma two_digits: "n < 100 \<Longrightarrow> zero_pad2 n = [48 + n div 10, 48 + n mod 10] \<and>
    10 * (n div 10) + n mod 10 = n \<and> n div 10 \<le> 9 \<and> n mod 10 \<le> 9"
  using mod10_le [of n] by (simp add: zero_pad2_def)

lemma re_Y_first: "y \<le> 9999 \<Longrightarrow> \<exists>xs'. re_Y (zero_pad4 y @ rest) = (y, rest) # xs'"
  by (simp add: re_Y_pad)

lemma re_lit_first: "\<exists>xs'. re_lit c ([c] @ rest) = rest # xs'"
  by (simp add: re_lit_def)

lemma re_spaces_first: "\<exists>xs'. re_spaces ([32] @ zero_pad2 h @ rest) = (zero_pad2 h @ rest) # xs'"
proof -
  have "\<not> is_space (48 + h div 10 mod 10)"
    by (rule digit_not_space) (rule mod10_le)
  then show ?thesis by (simp add: zero_pad2_def is_space_def)
qed

lemma re_m_digits:
  "(a = 0 \<and> 1 \<le> b \<and> b \<le> 9) \<or> (a = 1 \<and> b \<le> 2) \<Longrightarrow>
     \<exists>xs'. re_m ([48 + a, 48 + b] @ rest) = (10 * a + b, rest) # xs'"
  by (auto simp add: re_m_def two_chars_def one_char_def in_range_def digits_value_def)

lemma re_d_digits:
  "(a = 0 \<and> 1 \<le> b \<and> b \<le> 9) \<or> (1 \<le> a \<and> a \<le> 2 \<and> b \<le> 9) \<or> (a = 3 \<and> b \<le> 1) \<Longrightarrow>
     \<exists>xs'. re_d ([48 + a, 48 + b] @ rest) = (10 * a + b, rest) # xs'"
  by (auto simp add: re_d_def two_chars_def one_char_def in_range_def is_digit_def
        digits_value_def)

lemma re_H_digits:
  "(a \<le> 1 \<and> b \<le> 9) \<or> (a = 2 \<and> b \<le> 3) \<Longrightarrow>
     \<exists>xs'. re_H ([48 + a, 48 + b] @ rest) = (10 * a + b, rest) # xs'"
  by (auto simp add: re_H_def two_chars_def one_char_def in_range_def is_digit_def
        digits_value_def)

lemma re_M_digits:
  "a \<le> 5 \<and> b \<le> 9 \<Longrightarrow>
     \<exists>xs'. re_M ([48 + a, 48 + b] @ rest) = (10 * a + b, rest) # xs'"
  by (auto simp add: re_M_def two_chars_def one_char_def in_range_def is_digit_def
        digits_value_def)

lemma re_S_digits:
  "a \<le> 5 \<and> b \<le> 9 \<Longrightarrow>
     \<exists>xs'. re_S ([48 + a, 48 + b] @ rest) = (10 * a + b, rest) # xs'"
  by (auto simp add: re_S_def two_chars_def one_char_def in_range_def is_digit_def
        digits_value_def)

lemma re_m_first:
  assumes "1 \<le> m" "m \<le> 12"
  shows "\<exists>xs'. re_m (zero_pad2 m @ rest) = (m, rest) # xs'"
proof -
  have c: "(m div 10 = 0 \<and> 1 \<le> m mod 10 \<and> m mod 10 \<le> 9) \<or> (m div 10 = 1 \<and> m mod 10 \<le> 2)"
    using assms by presburger
  have p: "zero_pad2 m = [48 + m div 10, 48 + m mod 10]" "10 * (m div 10) + m mod 10 = m"
    using assms two_digits [of m] by simp_all
  show ?thesis using re_m_digits [OF c, of rest] by (simp only: p)
qed

lemma re_d_first:
  assumes "1 \<le> n" "n \<le> 31"
  shows "\<exists>xs'. re_d (zero_pad2 n @ rest) = (n, rest) # xs'"
proof -
  have c: "(n div 10 = 0 \<and> 1 \<le> n mod 10 \<and> n mod 10 \<le> 9) \<or>
           (1 \<le> n div 10 \<and> n div 10 \<le> 2 \<and> n mod 10 \<le> 9) \<or> (n div 10 = 3 \<and> n mod 10 \<le> 1)"
    using assms by presburger
  have p: "zero_pad2 n = [48 + n div 10, 48 + n mod 10]" "10 * (n div 10) + n mod 10 = n"
    using assms two_digits [of n] by simp_all
  show ?thesis using re_d_digits [OF c, of rest] by (simp only: p)
qed

lemma re_H_first:
  assumes "n \<le> 23"
  shows "\<exists>xs'. re_H (zero_pad2 n @ rest) = (n, rest) # xs'"
proof -
  have c: "(n div 10 \<le> 1 \<and> n mod 10 \<le> 9) \<or> (n div 10 = 2 \<and> n mod 10 \<le> 3)"
    using assms by presburger
  have p: "zero_pad2 n = [48 + n div 10, 48 + n mod 10]" "10 * (n div 10) + n mod 10 = n"
    using assms two_digits [of n] by simp_all
  show ?thesis using re_H_digits [OF c, of rest] by (simp only: p)
qed

lemma re_M_first:
  assumes "n \<le> 59"
  shows "\<exists>xs'. re_M (zero_pad2 n @ rest) = (n, rest) # xs'"
proof -
  have c: "n div 10 \<le> 5 \<and> n mod 10 \<le> 9"
    using assms by presburger
  have p: "zero_pad2 n = [48 + n div 10, 48 + n mod 10]" "10 * (n div 10) + n mod 10 = n"
    using assms two_digits [of n] by simp_all
  show ?thesis using re_M_digits [OF c, of rest] by (simp only: p)
qed

lemma re_S_first:
  assumes "n \<le> 59"
  shows "\<exists>xs'. re_S (zero_pad2 n @ rest) = (n, rest) # xs'"
proof -
  have c: "n div 10 \<le> 5 \<and> n mod 10 \<le> 9"
    using assms by presburger
  have p: "zero_pad2 n = [48 + n div 10, 48 + n mod 10]" "10 * (n div 10) + n mod 10 = n"
    using assms two_digits [of n] by simp_all
  show ?thesis using re_S_digits [OF c, of rest] by (simp only: p)
qed

lemma day_le_31:
  assumes "monthrange y m = Inr n" "d \<le> n"
  shows "d \<le> 31"
proof -
  have m: "1 \<le> m" "m \<le> 12" and n: "n = mdays ! m + (if m = 2 \<and> isleap y then 1 else 0)"
    using assms(1) by (auto simp add: monthrange_def split: if_splits)
  have "\<forall>x \<in> set mdays. x \<le> 31" by (simp add: mdays_def)
  moreover have "mdays ! m \<in> set mdays"
    using m by (intro nth_mem) (simp add: mdays_def)
  ultimately have a: "mdays ! m \<le> 31" by blast
  have b: "mdays ! 2 = 28" by (simp add: mdays_def)
  have "n \<le> 31"
  proof (cases "m = 2")
    case True
    then show ?thesis using n b by simp
  next
    case False
    then show ?thesis using n a by simp
  qed
  then show ?thesis using assms(2) by simp
qed

lemma strptime_matches_strftime:
  assumes "valid_datetime d"
  shows "\<exists>zs. strptime_matches (strftime d) = (d, []) # zs"
proof -
  have y: "year d \<le> 9999" and m: "1 \<le> month d" "month d \<le> 12" and d1: "1 \<le> day d"
    and h: "hour d \<le> 23" and mi: "minute d \<le> 59" and s: "second d \<le> 59"
    using assms by (simp_all add: valid_datetime_def)
  obtain n where "monthrange (year d) (month d) = Inr n" "day d \<le> n"
    using assms by (auto simp add: valid_datetime_def split: sum.splits)
  then have d31: "day d \<le> 31" by (rule day_le_31)
  have rec: "\<lparr>year = year d, month = month d, day = day d, hour = hour d, minute = minute d,
             second = second d\<rparr> = d"
    by simp
  have last: "zero_pad2 (second d) = zero_pad2 (second d) @ []" by simp
  show ?thesis
    unfolding strptime_matches_def strftime_def
    apply (subst last)
    apply (rule bind_first, rule re_Y_first [OF y], simp only: prod.case)
    apply (rule bind_first, rule re_lit_first)
    apply (rule bind_first, rule re_m_first [OF m], simp only: prod.case)
    apply (rule bind_first, rule re_lit_first)
    apply (rule bind_first, rule re_d_first [OF d1 d31], simp only: prod.case)
    apply (rule bind_first, rule re_spaces_first)
    apply (rule bind_first, rule re_H_first [OF h], simp only: prod.case)
    apply (rule bind_first, rule re_lit_first)
    apply (rule bind_first, rule re_M_first [OF mi], simp only: prod.case)
    apply (rule bind_first, rule re_lit_first)
    apply (rule bind_first, rule re_S_first [OF s], simp only: prod.case)
    apply (simp only: rec)
    apply blast
    done
qed

lemma py_strptime_strftime:
  assumes "valid_datetime d"
  shows "py_strptime (strftime d) = Some d"
proof -
  obtain zs where z: "strptime_matches (strftime d) = (d, []) # zs"
    using strptime_matches_strftime [OF assms] by blast
  obtain n where n: "monthrange (year d) (month d) = Inr n" "day d \<le> n"
    using assms by (auto simp add: valid_datetime_def split: sum.splits)
  have "1 \<le> year d" "second d \<le> 59"
    using assms by (simp_all add: valid_datetime_def)
  then show ?thesis
    using n by (simp add: py_strptime_def z)
qed

lemma load_one_line:
  assumes "10 \<notin> set raw" "13 \<notin> set raw"
  shows "load_expenses pyfloat clk t (Some (raw @ [10])) = load_line pyfloat clk ([], [], t) raw"
proof -
  have "universal_newlines (raw @ 10 # []) = raw @ 10 # []"
    by (simp only: universal_newlines_line [OF assms(2)] universal_newlines.simps)
  moreover have "readlines (raw @ 10 # []) = [raw @ [10]]"
    by (simp only: readlines_line [OF assms(1)] readlines.simps)
  ultimately show ?thesis
    by (simp add: load_expenses_def load_line_newline del: load_line.simps)
qed

lemma filter_stamped:
  assumes "valid_datetime d"
    and "fm = None \<or> fm = Some (int (month d))" and "fy = None \<or> fy = Some (int (year d))"
  shows "filter_expenses py_strptime fm fy
           [\<lparr>name = n, category = c, amount = a, timestamp = strftime d\<rparr>] =
         [\<lparr>name = n, category = c, amount = a, timestamp = strftime d\<rparr>]"
  using assms(2,3) by (auto simp add: py_strptime_strftime [OF assms(1)])

lemma valid_end_of_march: "valid_datetime end_of_march"
  by (simp add: valid_datetime_def end_of_march_def monthrange_def mdays_def)

lemma strftime_end_of_march: "strftime end_of_march = ascii ''2024-03-31 23:59:59''"
  by (simp add: strftime_def end_of_march_def zero_pad4_def zero_pad2_def ascii_def)

text \<open>
  Claim C10. For a line of exactly 3 fields whose amount \<open>float\<close> accepts,
  \<open>load_expenses\<close> reads the clock once and makes a record whose timestamp is that
  reading, written by \<open>strftime\<close> as year-month-day hour:minute:second. For every date
  and time with a year of four digits, \<open>strptime\<close> reads back exactly what
  \<open>strftime\<close> wrote; so the filter of the summary keeps such a record for the month and
  year of the reading (and for absent filters), and a store of that one line,
  summarised for the month and year of the reading, gives a report and not the
  empty-period outcome.
\<close>

theorem load_three_fields_timestamp:
  "(length (py_split 44 (strip raw)) = 3 \<and> pyfloat (py_split 44 (strip raw) ! 1) = Some a \<longrightarrow>
      load_line pyfloat clk (es, out, t) raw =
        (es @ [\<lparr>name = py_split 44 (strip raw) ! 0, category = py_split 44 (strip raw) ! 2,
                amount = a, timestamp = strftime (clk t)\<rparr>], out, Suc t)) \<and>
   (valid_datetime d \<longrightarrow> py_strptime (strftime d) = Some d) \<and>
   (valid_datetime d \<and> (fm = None \<or> fm = Some (int (month d))) \<and>
    (fy = None \<or> fy = Some (int (year d))) \<longrightarrow>
      filter_expenses py_strptime fm fy
        [\<lparr>name = n, category = c, amount = a, timestamp = strftime d\<rparr>] =
      [\<lparr>name = n, category = c, amount = a, timestamp = strftime d\<rparr>]) \<and>
   (10 \<notin> set raw \<and> 13 \<notin> set raw \<and> valid_datetime (clk t) \<and>
    length (py_split 44 (strip raw)) = 3 \<and> pyfloat (py_split 44 (strip raw) ! 1) = Some a \<longrightarrow>
      load_expenses pyfloat clk t (Some (raw @ [10])) =
        ([\<lparr>name = py_split 44 (strip raw) ! 0, category = py_split 44 (strip raw) ! 2,
           amount = a, timestamp = strftime (clk t)\<rparr>], [], Suc t) \<and>
      (\<exists>r. summarize_expenses pyfloat py_strptime clk t (Some (raw @ [10])) cb
              (Some (int (month (clk t)))) (Some (int (year (clk t)))) = Inr (Report r)))"
proof (intro conjI impI)
  assume "length (py_split 44 (strip raw)) = 3 \<and> pyfloat (py_split 44 (strip raw) ! 1) = Some a"
  then show "load_line pyfloat clk (es, out, t) raw =
        (es @ [\<lparr>name = py_split 44 (strip raw) ! 0, category = py_split 44 (strip raw) ! 2,
                amount = a, timestamp = strftime (clk t)\<rparr>], out, Suc t)"
    by (intro load_line_three) simp_all
next
  assume "valid_datetime d"
  then show "py_strptime (strftime d) = Some d" by (rule py_strptime_strftime)
next
  assume "valid_datetime d \<and> (fm = None \<or> fm = Some (int (month d))) \<and>
    (fy = None \<or> fy = Some (int (year d)))"
  then show "filter_expenses py_strptime fm fy
        [\<lparr>name = n, category = c, amount = a, timestamp = strftime d\<rparr>] =
      [\<lparr>name = n, category = c, amount = a, timestamp = strftime d\<rparr>]"
    by (intro filter_stamped) simp_all
next
  assume h: "10 \<notin> set raw \<and> 13 \<notin> set raw \<and> valid_datetime (clk t) \<and>
    length (py_split 44 (strip raw)) = 3 \<and> pyfloat (py_split 44 (strip raw) ! 1) = Some a"
  let ?e = "\<lparr>name = py_split 44 (strip raw) ! 0, category = py_split 44 (strip raw) ! 2,
           amount = a, timestamp = strftime (clk t)\<rparr>"
  have "load_line pyfloat clk ([], [], t) raw = ([] @ [?e], [], Suc t)"
    using h by (intro load_line_three) simp_all
  then show l: "load_expenses pyfloat clk t (Some (raw @ [10])) = ([?e], [], Suc t)"
    using h by (simp add: load_one_line del: load_line.simps)
  have f: "filter_expenses py_strptime (Some (int (month (clk t)))) (Some (int (year (clk t))))
             [?e] = [?e]"
    using h by (intro filter_stamped) simp_all
  have "1 \<le> month (clk t) \<and> month (clk t) \<le> 12"
    using h by (simp add: valid_datetime_def)
  then have p: "period_label (Some (int (month (clk t)))) (Some (int (year (clk t)))) = Inr ()"
    by (intro period_label_ok) simp
  show "\<exists>r. summarize_expenses pyfloat py_strptime clk t (Some (raw @ [10])) cb
              (Some (int (month (clk t)))) (Some (int (year (clk t)))) = Inr (Report r)"
    unfolding summarize_expenses_def l
    by (simp add: summarize_records_Report_iff p f del: filter_expenses.simps)
qed

theorem load_three_fields_timestamp_witness:
  "load_expenses pyfloat_plain frozen_clock 0 (Some (ascii ''a,1,b'' @ [10])) =
     ([\<lparr>name = ascii ''a'', category = ascii ''b'', amount = 1,
        timestamp = ascii ''2024-03-31 23:59:59''\<rparr>], [], 1) \<and>
   py_strptime (ascii ''2024-03-31 23:59:59'') = Some end_of_march \<and>
   filter_expenses py_strptime (Some 3) (Some 2024)
     [\<lparr>name = ascii ''a'', category = ascii ''b'', amount = 1,
       timestamp = ascii ''2024-03-31 23:59:59''\<rparr>] =
     [\<lparr>name = ascii ''a'', category = ascii ''b'', amount = 1,
       timestamp = ascii ''2024-03-31 23:59:59''\<rparr>] \<and>
   (\<exists>r. summarize_expenses pyfloat_plain py_strptime frozen_clock 0
           (Some (ascii ''a,1,b'' @ [10])) scenario_budgets (Some 3) (Some 2024) =
         Inr (Report r))"
proof -
  note t = load_three_fields_timestamp [where raw = "ascii ''a,1,b''" and pyfloat = pyfloat_plain
      and clk = frozen_clock and t = 0 and a = 1 and d = end_of_march
      and fm = "Some 3" and fy = "Some 2024" and n = "ascii ''a''" and c = "ascii ''b''"
      and cb = scenario_budgets]
  have nl: "10 \<notin> set (ascii ''a,1,b'')" "13 \<notin> set (ascii ''a,1,b'')"
    by (simp_all add: ascii_def)
  have line: "length (py_split 44 (strip (ascii ''a,1,b''))) = 3"
    "py_split 44 (strip (ascii ''a,1,b'')) ! 0 = ascii ''a''"
    "py_split 44 (strip (ascii ''a,1,b'')) ! 1 = ascii ''1''"
    "py_split 44 (strip (ascii ''a,1,b'')) ! Suc 0 = ascii ''1''"
    "py_split 44 (strip (ascii ''a,1,b'')) ! 2 = ascii ''b''"
    by (simp_all add: line_examples)
  have clock: "frozen_clock 0 = end_of_march" by (simp add: frozen_clock_def)
  have 1: "py_strptime (ascii ''2024-03-31 23:59:59'') = Some end_of_march"
    using t [THEN conjunct2, THEN conjunct1] valid_end_of_march
    by (simp add: strftime_end_of_march)
  have 2: "filter_expenses py_strptime (Some 3) (Some 2024)
     [\<lparr>name = ascii ''a'', category = ascii ''b'', amount = 1,
       timestamp = ascii ''2024-03-31 23:59:59''\<rparr>] =
     [\<lparr>name = ascii ''a'', category = ascii ''b'', amount = 1,
       timestamp = ascii ''2024-03-31 23:59:59''\<rparr>]"
    using t [THEN conjunct2, THEN conjunct2, THEN conjunct1] valid_end_of_march
    by (simp add: strftime_end_of_march current_month_examples del: filter_expenses.simps)
  have 3: "load_expenses pyfloat_plain frozen_clock 0 (Some (ascii ''a,1,b'' @ [10])) =
     ([\<lparr>name = ascii ''a'', category = ascii ''b'', amount = 1,
        timestamp = ascii ''2024-03-31 23:59:59''\<rparr>], [], 1) \<and>
     (\<exists>r. summarize_expenses pyfloat_plain py_strptime frozen_clock 0
           (Some (ascii ''a,1,b'' @ [10])) scenario_budgets (Some 3) (Some 2024) =
         Inr (Report r))"
    using t [THEN conjunct2, THEN conjunct2, THEN conjunct2] valid_end_of_march nl
    by (simp add: line clock pyfloat_plain_examples strftime_end_of_march current_month_examples
          del: filter_expenses.simps)
  show ?thesis using 1 2 3 by blast
qed

end
